theory Spec2Isabelle
  imports Complex_Main "HOL-Library.Multiset" "HOL-Library.Sublist" "HOL-Library.Log_Nat"
begin

section \<open>Conventions\<close>

text \<open>
  The repository is TypeScript. A value of type \<^verbatim>\<open>number\<close> is modelled as a
  \<^typ>\<open>real\<close>; NaN and the infinities are outside the model. The one NaN the modelled
  code can produce by itself, the quotient \<^verbatim>\<open>0 / 0\<close> of an average over an empty array,
  is made explicit as \<^term>\<open>None\<close> (see \<open>js_avg\<close> below).

  Two functions of the seeder, \<^verbatim>\<open>generateCreditScore\<close> and \<^verbatim>\<open>calculateCLV\<close>, pass the
  value of an arithmetic expression to \<^verbatim>\<open>Math.floor\<close>, so the rounding of the
  double-precision operations decides which integer they return. Their arithmetic is
  modelled as the code computes it: the result of every operation and every decimal
  literal is rounded to the nearest double (\<open>fl\<close> below). Their arguments stand for
  doubles; on finite arguments no operation of these two functions exceeds the range of
  the doubles. Everywhere else the formulas are read over exact arithmetic.

  \<^verbatim>\<open>Math.random()\<close> is modelled by a parameter \<open>rnd\<close> holding the value the call
  returns (a number in \<open>[0, 1)\<close>); \<^verbatim>\<open>Date.now()\<close> by a parameter holding the reading.
\<close>

definition Math_floor :: "real \<Rightarrow> real" where
  "Math_floor x = of_int \<lfloor>x\<rfloor>"

section \<open>Double-precision arithmetic\<close>

text \<open>
  Rounding to the nearest integer, a tie going to the even one.
\<close>

definition round_even :: "real \<Rightarrow> int" where
  "round_even y =
     (let f = \<lfloor>y\<rfloor>; r = y - of_int f
      in if r < 1 / 2 then f else if 1 / 2 < r then f + 1 else if even f then f else f + 1)"

text \<open>
  A non-negative \<open>y\<close> rounded to 53 significant bits: when the integer part of \<open>y\<close>
  has more than 53 bits, the excess low bits are rounded away; otherwise \<open>y\<close> is
  rounded to an integer.
\<close>

definition round_to_53 :: "real \<Rightarrow> real" where
  "round_to_53 y =
     (let shift = nat (bitlen \<lfloor>y\<rfloor> - 53)
      in of_int (round_even (y / 2 ^ shift)) * 2 ^ shift)"

text \<open>
  Every finite double is an integer multiple of 2 to the power -1074 with at most 53
  significant bits. \<open>fl x\<close> is the double nearest to \<open>x\<close> (IEEE 754 round to nearest,
  ties to even), the subnormal range included; overflow is not modelled.
\<close>

definition subnormal_scale :: real where
  "subnormal_scale = 2 ^ 1074"

definition fl :: "real \<Rightarrow> real" where
  "fl x = sgn x * (round_to_53 (\<bar>x\<bar> * subnormal_scale) / subnormal_scale)"

section \<open>The data seeder (src/services/dataSeeder.ts)\<close>

subsection \<open>generateCreditScore\<close>

text \<open>
  \<^verbatim>\<open>
  const baseScore = Math.min(850, 580 + (income / 1000))
  const variation = (Math.random() - 0.5) * 100
  return Math.max(300, Math.min(850, Math.floor(baseScore + variation)))
  \<close>
  in double-precision arithmetic. \<^verbatim>\<open>Math.min\<close>, \<^verbatim>\<open>Math.max\<close> and \<^verbatim>\<open>Math.floor\<close> are
  exact on doubles.
\<close>

definition generateCreditScore :: "real \<Rightarrow> real \<Rightarrow> real" where
  "generateCreditScore income rnd =
     (let baseScore = min 850 (fl (580 + fl (income / 1000)));
          variation = fl (fl (rnd - 0.5) * 100)
      in max 300 (min 850 (Math_floor (fl (baseScore + variation)))))"

subsection \<open>calculateRiskScore\<close>

text \<open>
  \<^verbatim>\<open>
  const creditRisk = (850 - creditScore) / 550
  const balanceRisk = balance < 1000 ? 0.3 : balance < 5000 ? 0.1 : 0
  const activityRisk = transactionCount < 5 ? 0.2 : transactionCount > 100 ? 0.1 : 0
  const totalRisk = (creditRisk * 0.6) + (balanceRisk * 0.3) + (activityRisk * 0.1)
  return Math.max(0, Math.min(1, totalRisk + (Math.random() - 0.5) * 0.2))
  \<close>
  over exact arithmetic.
\<close>

definition creditRisk :: "real \<Rightarrow> real" where
  "creditRisk creditScore = (850 - creditScore) / 550"

definition balanceRisk :: "real \<Rightarrow> real" where
  "balanceRisk balance = (if balance < 1000 then 0.3 else if balance < 5000 then 0.1 else 0)"

definition activityRisk :: "real \<Rightarrow> real" where
  "activityRisk transactionCount =
     (if transactionCount < 5 then 0.2 else if transactionCount > 100 then 0.1 else 0)"

definition calculateRiskScore :: "real \<Rightarrow> real \<Rightarrow> real \<Rightarrow> real \<Rightarrow> real" where
  "calculateRiskScore creditScore balance transactionCount rnd =
     (let totalRisk = (creditRisk creditScore * 0.6) + (balanceRisk balance * 0.3)
                      + (activityRisk transactionCount * 0.1)
      in max 0 (min 1 (totalRisk + (rnd - 0.5) * 0.2)))"

subsection \<open>calculateCLV\<close>

text \<open>
  \<^verbatim>\<open>
  const monthlyRevenue = (balance * 0.001) + (income * 0.0001)
  const retentionMultiplier = Math.min(5, accountAge / 12)
  return Math.floor(monthlyRevenue * 12 * retentionMultiplier * (2 + Math.random() * 3))
  \<close>
  in double-precision arithmetic; the product is evaluated from the left.
\<close>

definition calculateCLV :: "real \<Rightarrow> real \<Rightarrow> real \<Rightarrow> real \<Rightarrow> real" where
  "calculateCLV balance income accountAge rnd =
     (let monthlyRevenue = fl (fl (balance * fl 0.001) + fl (income * fl 0.0001));
          retentionMultiplier = min 5 (fl (accountAge / 12))
      in Math_floor (fl (fl (fl (monthlyRevenue * 12) * retentionMultiplier)
                         * fl (2 + fl (rnd * 3)))))"

subsection \<open>chunkArray\<close>

text \<open>
  \<^verbatim>\<open>
  const chunks = []
  for (let i = 0; i < array.length; i += chunkSize) {
    chunks.push(array.slice(i, i + chunkSize))
  }
  return chunks
  \<close>
  The chunk size is a count of elements (the seeder passes the literal 50), a
  \<^typ>\<open>nat\<close>. With a chunk size of zero the loop never advances; the loop is therefore a
  partial function and \<^term>\<open>None\<close> stands for a run that does not return.
\<close>

definition slice :: "'a list \<Rightarrow> nat \<Rightarrow> nat \<Rightarrow> 'a list" where
  "slice array start end = take (end - start) (drop start array)"

partial_function (option) chunk_loop ::
  "'a list \<Rightarrow> nat \<Rightarrow> nat \<Rightarrow> 'a list list \<Rightarrow> 'a list list option" where
  "chunk_loop array chunkSize i chunks =
     (if i < length array
      then chunk_loop array chunkSize (i + chunkSize) (chunks @ [slice array i (i + chunkSize)])
      else Some chunks)"

definition chunkArray :: "'a list \<Rightarrow> nat \<Rightarrow> 'a list list option" where
  "chunkArray array chunkSize = chunk_loop array chunkSize 0 []"

section \<open>The ML engine (MLEngine, src/services/mlEngine)\<close>

subsection \<open>Data\<close>

text \<open>
  The interface \<^verbatim>\<open>CustomerData\<close>. The field \<^verbatim>\<open>id\<close> is \<open>id_cust\<close> here, since
  \<open>id\<close> is the identity function of HOL.
\<close>

record CustomerData =
  id_cust :: string
  accountBalance :: real
  creditScore :: real
  annualIncome :: real
  transactionCount :: real
  avgMonthlyBalance :: real
  riskScore :: real
  customerLifetimeValue :: real
  accountAge :: real
  lastTransactionDays :: real

text \<open>
  The interface \<^verbatim>\<open>SegmentationResult\<close> and its \<^verbatim>\<open>characteristics\<close>. An average is
  \<^term>\<open>None\<close> when the JavaScript value is NaN. The fields \<^verbatim>\<open>customers\<close> and
  \<^verbatim>\<open>size\<close> carry the suffix \<open>_seg\<close>.
\<close>

record characteristics =
  avgBalance :: "real option"
  avgIncome :: "real option"
  avgRiskScore :: "real option"
  avgCLV :: "real option"
  size_seg :: real

record SegmentationResult =
  segmentId :: string
  segmentName :: string
  customers_seg :: "string list"
  characteristics :: characteristics
  insights :: "string list"

subsection \<open>Array operations\<close>

text \<open>
  \<^verbatim>\<open>Array.prototype.sort(compare)\<close> is a stable sort (ECMAScript 2019): for a
  comparator that orders consistently, the result is the one arrangement that is sorted
  and keeps equal elements in their original order. It is modelled by insertion from the
  right, where an element goes before the first element it does not compare greater
  than.
\<close>

fun insert_by :: "('a \<Rightarrow> 'a \<Rightarrow> real) \<Rightarrow> 'a \<Rightarrow> 'a list \<Rightarrow> 'a list" where
  "insert_by compare x [] = [x]"
| "insert_by compare x (y # ys) =
     (if compare x y \<le> 0 then x # y # ys else y # insert_by compare x ys)"

definition Array_sort :: "('a \<Rightarrow> 'a \<Rightarrow> real) \<Rightarrow> 'a list \<Rightarrow> 'a list" where
  "Array_sort compare xs = foldr (insert_by compare) xs []"

text \<open>
  \<^verbatim>\<open>xs.reduce((sum, c) => sum + c.f, 0) / xs.length\<close>: the quotient is \<^verbatim>\<open>0 / 0\<close>, NaN,
  for an empty array.
\<close>

definition js_avg :: "('a \<Rightarrow> real) \<Rightarrow> 'a list \<Rightarrow> real option" where
  "js_avg f xs =
     (if length xs = 0 then None
      else Some (foldl (\<lambda>sum c. sum + f c) 0 xs / real (length xs)))"

definition segment_characteristics :: "CustomerData list \<Rightarrow> characteristics" where
  "segment_characteristics cs =
     \<lparr>avgBalance = js_avg accountBalance cs,
      avgIncome = js_avg annualIncome cs,
      avgRiskScore = js_avg riskScore cs,
      avgCLV = js_avg customerLifetimeValue cs,
      size_seg = real (length cs)\<rparr>"

subsection \<open>fallbackSegmentation\<close>

text \<open>
  \<^verbatim>\<open>
  const sortedByBalance = [...customers].sort((a, b) => b.accountBalance - a.accountBalance)
  const highValueCount = Math.ceil(customers.length * 0.2)
  const highValueCustomers = sortedByBalance.slice(0, highValueCount)
  \<close>
\<close>

definition sortedByBalance :: "CustomerData list \<Rightarrow> CustomerData list" where
  "sortedByBalance customers =
     Array_sort (\<lambda>a b. accountBalance b - accountBalance a) customers"

definition highValueCount :: "CustomerData list \<Rightarrow> nat" where
  "highValueCount customers = nat \<lceil>real (length customers) * 0.2\<rceil>"

definition highValueCustomers :: "CustomerData list \<Rightarrow> CustomerData list" where
  "highValueCustomers customers = slice (sortedByBalance customers) 0 (highValueCount customers)"

text \<open>
  \<^verbatim>\<open>
  const youngProfessionals = customers.filter(c =>
    c.accountAge < 36 && c.annualIncome > 40000 && c.annualIncome < 100000)
  const highRiskCustomers = customers.filter(c => c.riskScore > 0.7)
  \<close>
\<close>

definition youngProfessionals :: "CustomerData list \<Rightarrow> CustomerData list" where
  "youngProfessionals customers =
     filter (\<lambda>c. accountAge c < 36 \<and> annualIncome c > 40000 \<and> annualIncome c < 100000) customers"

definition highRiskCustomers :: "CustomerData list \<Rightarrow> CustomerData list" where
  "highRiskCustomers customers = filter (\<lambda>c. riskScore c > 0.7) customers"

text \<open>
  The three segments pushed by \<^verbatim>\<open>fallbackSegmentation\<close>. The argument \<open>now\<close> is the
  rendering of the \<^verbatim>\<open>Date.now()\<close> reading in the segment's id.
\<close>

definition high_value_segment :: "string \<Rightarrow> CustomerData list \<Rightarrow> SegmentationResult" where
  "high_value_segment now customers =
     \<lparr>segmentId = ''seg_high_value_'' @ now,
      segmentName = ''High Value Customers'',
      customers_seg = map id_cust (highValueCustomers customers),
      characteristics = segment_characteristics (highValueCustomers customers),
      insights = [''Premium banking services and investment products'',
                  ''Dedicated relationship managers'',
                  ''Exclusive rewards and benefits programs'']\<rparr>"

definition young_prof_segment :: "string \<Rightarrow> CustomerData list \<Rightarrow> SegmentationResult" where
  "young_prof_segment now customers =
     \<lparr>segmentId = ''seg_young_prof_'' @ now,
      segmentName = ''Young Professionals'',
      customers_seg = map id_cust (youngProfessionals customers),
      characteristics = segment_characteristics (youngProfessionals customers),
      insights = [''Mobile-first banking solutions'',
                  ''Student loan and mortgage products'',
                  ''Financial planning and investment education'']\<rparr>"

definition high_risk_segment :: "string \<Rightarrow> CustomerData list \<Rightarrow> SegmentationResult" where
  "high_risk_segment now customers =
     \<lparr>segmentId = ''seg_high_risk_'' @ now,
      segmentName = ''High Risk Customers'',
      customers_seg = map id_cust (highRiskCustomers customers),
      characteristics = segment_characteristics (highRiskCustomers customers),
      insights = [''Enhanced monitoring and fraud detection'',
                  ''Risk mitigation strategies'',
                  ''Potential account restrictions or closures'']\<rparr>"

text \<open>
  \<^verbatim>\<open>fallbackSegmentation(customers)\<close>: the high-value segment is pushed always, the
  other two under \<^verbatim>\<open>if (... .length > 0)\<close>. \<open>t1\<close>, \<open>t2\<close>, \<open>t3\<close> are the three clock
  readings.
\<close>

definition fallbackSegmentation ::
  "string \<Rightarrow> string \<Rightarrow> string \<Rightarrow> CustomerData list \<Rightarrow> SegmentationResult list" where
  "fallbackSegmentation t1 t2 t3 customers =
     (let segments = [];
          segments = segments @ [high_value_segment t1 customers];
          segments = (if length (youngProfessionals customers) > 0
                      then segments @ [young_prof_segment t2 customers] else segments);
          segments = (if length (highRiskCustomers customers) > 0
                      then segments @ [high_risk_segment t3 customers] else segments)
      in segments)"

text \<open>The segments of a result that carry a given name.\<close>

definition segments_named :: "string \<Rightarrow> SegmentationResult list \<Rightarrow> SegmentationResult list" where
  "segments_named name segs = filter (\<lambda>s. segmentName s = name) segs"

subsection \<open>The operations backed by the hosted AI\<close>

text \<open>
  \<^verbatim>\<open>blink.ai.generateObject\<close> is an argument of each operation: a function from the
  request to either the thrown value (\<open>Inl\<close>) or the returned \<^verbatim>\<open>object\<close> (\<open>Inr\<close>).
  A request is the data the source interpolates into its prompt; the wording of the
  prompt is not modelled. A returned object has the shape of the schema the source
  passes, every property optional where the source tests it.

  An operation returns the list of requests it made and its own outcome: \<open>Inl\<close> when
  an exception leaves the operation, \<open>Inr\<close> when it returns a value.
\<close>

type_synonym ('rq, 'e, 'a) outcome = "'rq list \<times> ('e + 'a)"

datatype customer_summary =
  CustomerSummary string real real real real real real real real

definition summarise :: "CustomerData \<Rightarrow> customer_summary" where
  "summarise c =
     CustomerSummary (id_cust c) (accountBalance c) (annualIncome c) (creditScore c)
       (transactionCount c) (riskScore c) (customerLifetimeValue c) (accountAge c)
       (lastTransactionDays c)"

datatype segmentation_prompt = SegmentationPrompt nat "customer_summary list"

record ai_segment =
  ai_segmentName :: string
  customerIds :: "string list"
  ai_characteristics :: characteristics
  ai_insights :: "string list"

record segmentation_object =
  segments :: "ai_segment list option"

text \<open>
  \<^verbatim>\<open>performCustomerSegmentation(customers)\<close>. \<open>fresh i\<close> is the rendering of
  \<^verbatim>\<open>${Date.now()}_${Math.random().toString(36).substr(2, 9)}\<close> for the \<open>i\<close>-th segment of
  the AI's answer.
  \<^verbatim>\<open>
  if (customers.length === 0) return []
  try {
    const customerSummary = customers.map(c => ({ ... }))
    const { object } = await blink.ai.generateObject({ prompt: ..., schema: ... })
    const results = []
    if (object.segments) { for (const segment of object.segments) { results.push({ ... }) } }
    return results
  } catch (error) {
    return this.fallbackSegmentation(customers)
  }
  \<close>
\<close>

definition performCustomerSegmentation ::
  "(segmentation_prompt \<Rightarrow> 'e + segmentation_object) \<Rightarrow> (nat \<Rightarrow> string)
     \<Rightarrow> string \<Rightarrow> string \<Rightarrow> string \<Rightarrow> CustomerData list
     \<Rightarrow> (segmentation_prompt, 'e, SegmentationResult list) outcome" where
  "performCustomerSegmentation generateObject fresh t1 t2 t3 customers =
     (if length customers = 0 then ([], Inr [])
      else
        let customerSummary = map summarise customers;
            prompt = SegmentationPrompt (length customers) (slice customerSummary 0 50)
        in case generateObject prompt of
             Inr object \<Rightarrow>
               ([prompt],
                Inr (case segments object of
                       None \<Rightarrow> []
                     | Some segs \<Rightarrow>
                         map (\<lambda>(i, segment).
                                \<lparr>segmentId = ''seg_'' @ fresh i,
                                 segmentName = ai_segmentName segment,
                                 customers_seg = customerIds segment,
                                 characteristics = ai_characteristics segment,
                                 insights = ai_insights segment\<rparr>)
                             (enumerate 0 segs)))
           | Inl error \<Rightarrow> ([prompt], Inr (fallbackSegmentation t1 t2 t3 customers)))"

text \<open>
  \<^verbatim>\<open>generateCustomerInsights(customerId, customerData)\<close> and
  \<^verbatim>\<open>generateProductRecommendations(customerData)\<close>:
  \<^verbatim>\<open>
  try {
    const { object } = await blink.ai.generateObject({ ... })
    return object.insights || []          // object.recommendations || []
  } catch (error) { return [] }
  \<close>
  The items are \<^verbatim>\<open>any\<close>, a type variable here; the returned object is given by its
  one property (\<^verbatim>\<open>object.insights\<close>, \<^verbatim>\<open>object.recommendations\<close>), \<^term>\<open>None\<close> when it
  is undefined.
\<close>

datatype insights_prompt = InsightsPrompt CustomerData

datatype product_prompt = ProductPrompt CustomerData

definition generateCustomerInsights ::
  "(insights_prompt \<Rightarrow> 'e + 'i list option) \<Rightarrow> string \<Rightarrow> CustomerData
     \<Rightarrow> (insights_prompt, 'e, 'i list) outcome" where
  "generateCustomerInsights generateObject customerId customerData =
     (let prompt = InsightsPrompt customerData
      in case generateObject prompt of
           Inr object_insights \<Rightarrow>
             ([prompt], Inr (case object_insights of Some xs \<Rightarrow> xs | None \<Rightarrow> []))
         | Inl error \<Rightarrow> ([prompt], Inr []))"

definition generateProductRecommendations ::
  "(product_prompt \<Rightarrow> 'e + 'p list option) \<Rightarrow> CustomerData
     \<Rightarrow> (product_prompt, 'e, 'p list) outcome" where
  "generateProductRecommendations generateObject customerData =
     (let prompt = ProductPrompt customerData
      in case generateObject prompt of
           Inr object_recommendations \<Rightarrow>
             ([prompt], Inr (case object_recommendations of Some xs \<Rightarrow> xs | None \<Rightarrow> []))
         | Inl error \<Rightarrow> ([prompt], Inr []))"

text \<open>
  \<^verbatim>\<open>assessCustomerRisk(customerData, transactionHistory)\<close>:
  \<^verbatim>\<open>
  try {
    const { object } = await blink.ai.generateObject({ ... transactionHistory.slice(0, 10) ... })
    return {
      riskScore: Math.max(0, Math.min(1, object.riskScore || customerData.riskScore)),
      riskLevel: object.riskLevel || 'medium',
      factors: object.factors || [],
      recommendations: object.recommendations || []
    }
  } catch (error) {
    return {
      riskScore: customerData.riskScore,
      riskLevel: customerData.riskScore > 0.7 ? 'high'
               : customerData.riskScore > 0.4 ? 'medium' : 'low',
      factors: ['Unable to assess risk factors'],
      recommendations: ['Manual review recommended']
    }
  }
  \<close>
  \<^verbatim>\<open>a || b\<close> is \<open>b\<close> when \<open>a\<close> is undefined, the number 0 or the empty string.
\<close>

datatype 'tx risk_prompt = RiskPrompt CustomerData "'tx list"

record risk_object =
  o_riskScore :: "real option"
  o_riskLevel :: "string option"
  o_factors :: "string list option"
  o_recommendations :: "string list option"

record risk_analysis =
  r_riskScore :: real
  r_riskLevel :: string
  r_factors :: "string list"
  r_recommendations :: "string list"

definition assessCustomerRisk ::
  "('tx risk_prompt \<Rightarrow> 'e + risk_object) \<Rightarrow> CustomerData \<Rightarrow> 'tx list
     \<Rightarrow> ('tx risk_prompt, 'e, risk_analysis) outcome" where
  "assessCustomerRisk generateObject customerData transactionHistory =
     (let prompt = RiskPrompt customerData (slice transactionHistory 0 10)
      in case generateObject prompt of
           Inr object \<Rightarrow>
             ([prompt],
              Inr \<lparr>r_riskScore =
                     max 0 (min 1 (case o_riskScore object of
                                     Some r \<Rightarrow> if r = 0 then riskScore customerData else r
                                   | None \<Rightarrow> riskScore customerData)),
                   r_riskLevel =
                     (case o_riskLevel object of
                        Some l \<Rightarrow> if l = [] then ''medium'' else l
                      | None \<Rightarrow> ''medium''),
                   r_factors = (case o_factors object of Some f \<Rightarrow> f | None \<Rightarrow> []),
                   r_recommendations =
                     (case o_recommendations object of Some r \<Rightarrow> r | None \<Rightarrow> [])\<rparr>)
         | Inl error \<Rightarrow>
             ([prompt],
              Inr \<lparr>r_riskScore = riskScore customerData,
                   r_riskLevel =
                     (if riskScore customerData > 0.7 then ''high''
                      else if riskScore customerData > 0.4 then ''medium'' else ''low''),
                   r_factors = [''Unable to assess risk factors''],
                   r_recommendations = [''Manual review recommended'']\<rparr>))"

text \<open>The hosted AI call was made and every call made threw.\<close>

definition ai_call_threw :: "('rq \<Rightarrow> 'e + 'ob) \<Rightarrow> 'rq list \<Rightarrow> bool" where
  "ai_call_threw generateObject calls =
     (calls \<noteq> [] \<and> list_all (\<lambda>rq. isl (generateObject rq)) calls)"

section \<open>The risk assessment page (src/pages/RiskAssessment.tsx)\<close>

text \<open>
  The page's interface \<^verbatim>\<open>Customer\<close>; the fields it shares with \<^verbatim>\<open>CustomerData\<close>
  carry the prefix \<open>c_\<close>. \<^verbatim>\<open>lastTransactionDate\<close> is \<^term>\<open>None\<close> when the row has
  none.
\<close>

record Customer =
  c_id :: string
  firstName :: string
  lastName :: string
  email :: string
  c_accountBalance :: real
  c_creditScore :: real
  c_annualIncome :: real
  c_riskScore :: real
  c_transactionCount :: real
  lastTransactionDate :: "string option"

text \<open>
  The row written to \<^verbatim>\<open>riskAssessments\<close>. \<^verbatim>\<open>JSON.stringify\<close> of the factors and of
  the recommendations is not rendered: the row keeps the lists.
\<close>

record assessment_row =
  a_id :: string
  a_userId :: string
  a_customerId :: string
  assessmentType :: string
  a_riskScore :: real
  a_riskLevel :: string
  a_factors :: "string list"
  a_recommendations :: "string list"
  status :: string
  assessedDate :: string
  expiresDate :: string

text \<open>
  What the outside world answers during one iteration of the loop: the responses of the
  hosted database and AI (\<open>Inl\<close>: the call throws), the clock readings and the fresh
  identifier (the answer to \<^verbatim>\<open>customers.update\<close> ends the iteration either way). \<open>now_a\<close> and \<open>now_b\<close> are \<^verbatim>\<open>Date.now()\<close> and \<^verbatim>\<open>new Date().getTime()\<close> in
  \<^verbatim>\<open>accountAge\<close>, \<open>now_c\<close> is \<^verbatim>\<open>Date.now()\<close> in \<^verbatim>\<open>lastTransactionDays\<close>, and
  \<open>getTime d\<close> is \<^verbatim>\<open>new Date(d).getTime()\<close>.
\<close>

record ('e, 'tx) iteration =
  transactions_list :: "'e + 'tx list"
  ai_generateObject :: "'tx risk_prompt \<Rightarrow> 'e + risk_object"
  riskAssessments_create :: "'e + unit"
  customers_update :: "'e + unit"
  now_a :: real
  now_b :: real
  now_c :: real
  getTime :: "string \<Rightarrow> real"
  fresh_id :: string
  assessed_now :: string
  expires_now :: string

text \<open>The calls a run makes, in order.\<close>

datatype 'tx event =
  AuthMe
  | TransactionsList string
  | AssessCustomerRisk CustomerData "'tx list"
  | GenerateObject "'tx risk_prompt"
  | RiskAssessmentsCreate assessment_row
  | CustomersUpdate string real
  | LoadData

text \<open>
  \<^verbatim>\<open>
  const customerData = {
    id: customer.id, accountBalance: customer.accountBalance, creditScore: customer.creditScore,
    annualIncome: customer.annualIncome, transactionCount: customer.transactionCount,
    avgMonthlyBalance: customer.accountBalance * 0.9, riskScore: customer.riskScore,
    customerLifetimeValue: 0,
    accountAge: Math.floor((Date.now() - new Date().getTime()) / (1000 * 60 * 60 * 24 * 30)),
    lastTransactionDays: customer.lastTransactionDate ?
      Math.floor((Date.now() - new Date(customer.lastTransactionDate).getTime())
                 / (1000 * 60 * 60 * 24)) : 30
  }
  \<close>
\<close>

definition customerData_of :: "('e, 'tx) iteration \<Rightarrow> Customer \<Rightarrow> CustomerData" where
  "customerData_of w customer =
     \<lparr>id_cust = c_id customer,
      accountBalance = c_accountBalance customer,
      creditScore = c_creditScore customer,
      annualIncome = c_annualIncome customer,
      transactionCount = c_transactionCount customer,
      avgMonthlyBalance = c_accountBalance customer * 0.9,
      riskScore = c_riskScore customer,
      customerLifetimeValue = 0,
      accountAge = Math_floor ((now_a w - now_b w) / (1000 * 60 * 60 * 24 * 30)),
      lastTransactionDays =
        (case lastTransactionDate customer of
           None \<Rightarrow> 30
         | Some d \<Rightarrow>
             if d = [] then 30
             else Math_floor ((now_c w - getTime w d) / (1000 * 60 * 60 * 24)))\<rparr>"

text \<open>
  The body of the loop, inside its own \<^verbatim>\<open>try { ... } catch (customerError) { ... }\<close>:
  the first call that throws ends the iteration. \<open>user\<close> is the value of
  \<^verbatim>\<open>blink.auth.me()\<close>, \<^term>\<open>None\<close> for \<^verbatim>\<open>null\<close>, where reading \<^verbatim>\<open>user.id\<close> throws.
\<close>

definition analyse_customer ::
  "('e, 'tx) iteration \<Rightarrow> string option \<Rightarrow> Customer \<Rightarrow> 'tx event list" where
  "analyse_customer w user customer =
     TransactionsList (c_id customer) #
     (case transactions_list w of
        Inl customerError \<Rightarrow> []
      | Inr transactions \<Rightarrow>
          (let customerData = customerData_of w customer;
               (calls, outcome) = assessCustomerRisk (ai_generateObject w) customerData transactions
           in AssessCustomerRisk customerData transactions # map GenerateObject calls @
              (case outcome of
                 Inl customerError \<Rightarrow> []
               | Inr riskAnalysis \<Rightarrow>
                   (case user of
                      None \<Rightarrow> []
                    | Some user_id \<Rightarrow>
                        RiskAssessmentsCreate
                          \<lparr>a_id = ''risk_'' @ fresh_id w,
                           a_userId = user_id,
                           a_customerId = c_id customer,
                           assessmentType = ''comprehensive'',
                           a_riskScore = r_riskScore riskAnalysis,
                           a_riskLevel = r_riskLevel riskAnalysis,
                           a_factors = r_factors riskAnalysis,
                           a_recommendations = r_recommendations riskAnalysis,
                           status = ''active'',
                           assessedDate = assessed_now w,
                           expiresDate = expires_now w\<rparr> #
                        (case riskAssessments_create w of
                           Inl customerError \<Rightarrow> []
                         | Inr _ \<Rightarrow>
                             [CustomersUpdate (c_id customer) (r_riskScore riskAnalysis)])))))"

text \<open>
  \<^verbatim>\<open>for (const customer of highRiskCustomers.slice(0, 20)) { ... }\<close>: the iterations
  run one after the other; \<open>world i\<close> is the world of the \<open>i\<close>-th.
\<close>

fun analysis_loop ::
  "(nat \<Rightarrow> ('e, 'tx) iteration) \<Rightarrow> string option \<Rightarrow> nat \<Rightarrow> Customer list \<Rightarrow> 'tx event list" where
  "analysis_loop world user i [] = []"
| "analysis_loop world user i (customer # rest) =
     analyse_customer (world i) user customer @ analysis_loop world user (Suc i) rest"

text \<open>
  \<^verbatim>\<open>
  const user = await blink.auth.me()
  const highRiskCustomers = customers.filter(c => c.riskScore > 0.6 || c.accountBalance < 1000)
  for (const customer of highRiskCustomers.slice(0, 20)) { ... }
  await loadData()
  \<close>
  inside \<^verbatim>\<open>try { ... } catch (error) { ... }\<close>: when \<^verbatim>\<open>blink.auth.me()\<close> throws, nothing
  else runs. The page's \<^verbatim>\<open>analyzing\<close> flag is not modelled.
\<close>

definition page_highRiskCustomers :: "Customer list \<Rightarrow> Customer list" where
  "page_highRiskCustomers customers =
     filter (\<lambda>c. c_riskScore c > 0.6 \<or> c_accountBalance c < 1000) customers"

definition runRiskAnalysis ::
  "'e + string option \<Rightarrow> (nat \<Rightarrow> ('e, 'tx) iteration) \<Rightarrow> Customer list \<Rightarrow> 'tx event list" where
  "runRiskAnalysis auth_me world customers =
     AuthMe #
     (case auth_me of
        Inl error \<Rightarrow> []
      | Inr user \<Rightarrow>
          analysis_loop world user 0 (slice (page_highRiskCustomers customers) 0 20) @ [LoadData])"

text \<open>
  The customers a run assesses (the calls of \<^verbatim>\<open>MLEngine.assessCustomerRisk\<close>) and the
  customers whose iteration it starts.
\<close>

fun assessed :: "'tx event list \<Rightarrow> string list" where
  "assessed [] = []"
| "assessed (AssessCustomerRisk customerData transactions # evs) = id_cust customerData # assessed evs"
| "assessed (ev # evs) = assessed evs"

fun started :: "'tx event list \<Rightarrow> string list" where
  "started [] = []"
| "started (TransactionsList customerId # evs) = customerId # started evs"
| "started (ev # evs) = started evs"

section \<open>Example data\<close>

definition example_customer :: "string \<Rightarrow> real \<Rightarrow> real \<Rightarrow> real \<Rightarrow> real \<Rightarrow> CustomerData" where
  "example_customer i bal inc risk age =
     \<lparr>id_cust = i, accountBalance = bal, creditScore = 700, annualIncome = inc,
      transactionCount = 20, avgMonthlyBalance = bal, riskScore = risk,
      customerLifetimeValue = 1000, accountAge = age, lastTransactionDays = 3\<rparr>"

definition example_customers :: "CustomerData list" where
  "example_customers =
     [example_customer ''a'' 500 40000 0.2 12,
      example_customer ''b'' 300 60000 0.8 12,
      example_customer ''c'' 500 99999 0.7 35,
      example_customer ''d'' 500 60000 0.9 36,
      example_customer ''e'' 1 40001 0.1 0,
      example_customer ''f'' 2 100000 0.3 1]"

text \<open>A hosted AI that throws at every request.\<close>

definition ai_down :: "'rq \<Rightarrow> string + 'ob" where
  "ai_down rq = Inl ''network error''"

text \<open>A world where every call returns (the AI apart), and a customer that qualifies.\<close>

definition calm_world :: "nat \<Rightarrow> (string, unit) iteration" where
  "calm_world i =
     \<lparr>transactions_list = Inr [],
      ai_generateObject = ai_down,
      riskAssessments_create = Inr (),
      customers_update = Inr (),
      now_a = 0, now_b = 0, now_c = 0,
      getTime = (\<lambda>d. 0),
      fresh_id = ''0_abc'',
      assessed_now = ''2025-01-01'',
      expires_now = ''2025-01-31''\<rparr>"

definition risky_customer :: Customer where
  "risky_customer =
     \<lparr>c_id = ''r'', firstName = ''R'', lastName = ''S'', email = ''r@example.com'',
      c_accountBalance = 5000, c_creditScore = 600, c_annualIncome = 50000,
      c_riskScore = 0.9, c_transactionCount = 12, lastTransactionDate = None\<rparr>"

text \<open>
  The membership condition of the young-professionals segment as the specification words
  it (\<open>40,000 \<le> income\<close>), for comparison with \<open>youngProfessionals\<close>.
\<close>

definition young_professional_spec :: "CustomerData \<Rightarrow> bool" where
  "young_professional_spec c =
     (accountAge c < 36 \<and> 40000 \<le> annualIncome c \<and> annualIncome c < 100000)"

section \<open>Properties of the double-precision rounding\<close>

lemma subnormal_scale_pos: "0 < subnormal_scale"
  by (simp only: subnormal_scale_def zero_less_power zero_less_numeral)

lemma subnormal_scale_split: "k \<le> 1074 \<Longrightarrow> subnormal_scale = 2 ^ k * 2 ^ (1074 - k)"
  by (simp only: subnormal_scale_def flip: power_add) simp

lemma round_even_of_int: "round_even (of_int n) = n"
  by (simp add: round_even_def)

lemma round_even_floor: "\<lfloor>y\<rfloor> \<le> round_even y \<and> round_even y \<le> \<lfloor>y\<rfloor> + 1"
  by (simp add: round_even_def Let_def)

lemma round_even_mono: "y \<le> z \<Longrightarrow> round_even y \<le> round_even z"
proof -
  assume yz: "y \<le> z"
  then have fl: "\<lfloor>y\<rfloor> \<le> \<lfloor>z\<rfloor>" by (rule floor_mono)
  show ?thesis
  proof (cases "\<lfloor>y\<rfloor> = \<lfloor>z\<rfloor>")
    case True
    then have "y - of_int \<lfloor>y\<rfloor> \<le> z - of_int \<lfloor>z\<rfloor>" using yz by simp
    then show ?thesis using True by (auto simp: round_even_def Let_def)
  next
    case False
    then have "\<lfloor>y\<rfloor> + 1 \<le> \<lfloor>z\<rfloor>" using fl by simp
    then show ?thesis using round_even_floor [of y] round_even_floor [of z] by linarith
  qed
qed

lemma round_even_le: "y \<le> of_int n \<Longrightarrow> round_even y \<le> n"
  using round_even_mono [of y "of_int n"] by (simp add: round_even_of_int)

lemma round_even_ge: "of_int n \<le> y \<Longrightarrow> n \<le> round_even y"
  using round_even_mono [of "of_int n" y] by (simp add: round_even_of_int)

lemma round_even_minus: "round_even (- y) = - round_even y"
proof (cases "y = of_int \<lfloor>y\<rfloor>")
  case True
  then obtain n where "y = of_int n" ..
  then have "- y = of_int (- n)" by simp
  then show ?thesis using \<open>y = of_int n\<close> by (metis round_even_of_int)
next
  case False
  then have c: "\<lceil>y\<rceil> = \<lfloor>y\<rfloor> + 1" by (metis ceiling_altdef)
  have f: "\<lfloor>- y\<rfloor> = - \<lfloor>y\<rfloor> - 1" using c by (simp add: ceiling_def)
  show ?thesis
    unfolding round_even_def Let_def f by (auto simp: algebra_simps)
qed


lemma round_to_53_eval:
  assumes lo: "2 ^ 52 \<le> y / 2 ^ s" and hi: "y / 2 ^ s < 2 ^ 53"
  shows "round_to_53 y = of_int (round_even (y / 2 ^ s)) * 2 ^ s"
proof -
  have "(2::real) ^ (52 + s) \<le> y" using lo by (simp add: power_add pos_le_divide_eq)
  then have "of_int (2 ^ (52 + s)) \<le> y" by simp
  then have l: "2 ^ (52 + s) \<le> \<lfloor>y\<rfloor>" by (simp only: le_floor_iff)
  have "y < (2::real) ^ (53 + s)" using hi by (simp add: power_add pos_divide_less_eq)
  then have "y < of_int (2 ^ (53 + s))" by simp
  then have u: "\<lfloor>y\<rfloor> < 2 ^ (53 + s)" by (simp only: floor_less_iff)
  have n: "nat (int (53 + s)) = 53 + s" "nat (int (53 + s)) - 1 = 52 + s" by simp_all
  have "bitlen \<lfloor>y\<rfloor> \<le> int (53 + s)"
    unfolding bitlen_le_iff_power n using u by simp
  moreover have "int (53 + s) \<le> bitlen \<lfloor>y\<rfloor>"
    unfolding bitlen_ge_iff_power n using l by simp
  ultimately have "bitlen \<lfloor>y\<rfloor> = int (53 + s)" by simp
  then have "nat (bitlen \<lfloor>y\<rfloor> - 53) = s" by simp
  then show ?thesis by (simp add: round_to_53_def Let_def)
qed

lemma round_to_53_small:
  assumes "y < 2 ^ 53"
  shows "round_to_53 y = of_int (round_even y)"
proof -
  have "y < of_int (2 ^ 53)" using assms by simp
  then have "\<lfloor>y\<rfloor> < 2 ^ 53" by (simp only: floor_less_iff)
  then have "bitlen \<lfloor>y\<rfloor> \<le> 53" by (simp add: bitlen_le_iff_power)
  then have "nat (bitlen \<lfloor>y\<rfloor> - 53) = 0" by simp
  then show ?thesis by (simp add: round_to_53_def Let_def)
qed


lemma bitlen_mono: "a \<le> b \<Longrightarrow> bitlen a \<le> bitlen b"
  by (simp add: bitlen_def floorlog_mono nat_mono)

lemma round_to_53_upper:
  assumes "s = nat (bitlen \<lfloor>y\<rfloor> - 53)"
  shows "round_to_53 y \<le> 2 ^ (53 + s)"
proof -
  have n: "nat (int (53 + s)) = 53 + s" by simp
  have "bitlen \<lfloor>y\<rfloor> \<le> int (53 + s)" using assms by simp
  then have "\<lfloor>y\<rfloor> < 2 ^ (53 + s)" unfolding bitlen_le_iff_power n by simp
  then have "y < of_int (2 ^ (53 + s))" by (simp only: floor_less_iff)
  then have "y / 2 ^ s \<le> of_int (2 ^ 53)" by (simp add: power_add pos_divide_le_eq)
  then have "round_even (y / 2 ^ s) \<le> 2 ^ 53" by (rule round_even_le)
  then have "real_of_int (round_even (y / 2 ^ s)) \<le> 2 ^ 53"
    by (metis of_int_le_iff of_int_numeral of_int_power)
  then have "real_of_int (round_even (y / 2 ^ s)) * 2 ^ s \<le> 2 ^ 53 * 2 ^ s"
    by (simp add: mult_right_mono)
  then show ?thesis using assms by (simp add: round_to_53_def Let_def power_add)
qed

lemma round_to_53_lower:
  assumes "t = nat (bitlen \<lfloor>z\<rfloor> - 53)" and "0 < t"
  shows "2 ^ (52 + t) \<le> round_to_53 z"
proof -
  have n: "nat (int (53 + t)) - 1 = 52 + t" by simp
  have "int (53 + t) \<le> bitlen \<lfloor>z\<rfloor>" using assms by simp
  then have "2 ^ (52 + t) \<le> \<lfloor>z\<rfloor>" unfolding bitlen_ge_iff_power n by simp
  then have "of_int (2 ^ (52 + t)) \<le> z" by (simp only: le_floor_iff)
  then have "of_int (2 ^ 52) \<le> z / 2 ^ t" by (simp add: power_add pos_le_divide_eq)
  then have "2 ^ 52 \<le> round_even (z / 2 ^ t)" by (rule round_even_ge)
  then have "2 ^ 52 \<le> real_of_int (round_even (z / 2 ^ t))"
    by (metis of_int_le_iff of_int_numeral of_int_power)
  then have "2 ^ 52 * 2 ^ t \<le> real_of_int (round_even (z / 2 ^ t)) * 2 ^ t"
    by (simp add: mult_right_mono)
  then show ?thesis using assms by (simp add: round_to_53_def Let_def power_add)
qed

lemma round_to_53_mono:
  assumes "y \<le> z"
  shows "round_to_53 y \<le> round_to_53 z"
proof -
  define s where "s = nat (bitlen \<lfloor>y\<rfloor> - 53)"
  define t where "t = nat (bitlen \<lfloor>z\<rfloor> - 53)"
  have "bitlen \<lfloor>y\<rfloor> \<le> bitlen \<lfloor>z\<rfloor>"
    using assms by (intro bitlen_mono floor_mono)
  then have st: "s \<le> t" by (simp add: s_def t_def)
  show ?thesis
  proof (cases "s = t")
    case True
    have "y / 2 ^ t \<le> z / 2 ^ t" using assms by (simp add: divide_right_mono)
    then have "round_even (y / 2 ^ t) \<le> round_even (z / 2 ^ t)" by (rule round_even_mono)
    then have "real_of_int (round_even (y / 2 ^ t)) * 2 ^ t \<le> real_of_int (round_even (z / 2 ^ t)) * 2 ^ t"
      by (simp add: mult_right_mono)
    then show ?thesis
      using True by (simp add: round_to_53_def Let_def s_def [symmetric] t_def [symmetric])
  next
    case False
    then have lt: "s < t" using st by simp
    then have "0 < t" by simp
    have "round_to_53 y \<le> 2 ^ (53 + s)" using s_def by (rule round_to_53_upper)
    also have "(2::real) ^ (53 + s) \<le> 2 ^ (52 + t)"
      using lt by (intro power_increasing) simp_all
    also have "\<dots> \<le> round_to_53 z" using t_def \<open>0 < t\<close> by (rule round_to_53_lower)
    finally show ?thesis .
  qed
qed

lemma round_to_53_nonneg: "0 \<le> y \<Longrightarrow> 0 \<le> round_to_53 y"
proof -
  assume "0 \<le> y"
  then have "of_int 0 \<le> y / 2 ^ nat (bitlen \<lfloor>y\<rfloor> - 53)" by simp
  then have "0 \<le> round_even (y / 2 ^ nat (bitlen \<lfloor>y\<rfloor> - 53))" by (rule round_even_ge)
  then show ?thesis by (simp add: round_to_53_def Let_def)
qed

lemma fl_zero: "fl 0 = 0"
  by (simp add: fl_def)

lemma fl_minus: "fl (- x) = - fl x"
  by (simp add: fl_def sgn_minus)

lemma fl_pos: "0 < x \<Longrightarrow> fl x = round_to_53 (x * subnormal_scale) / subnormal_scale"
  by (simp add: fl_def)

lemma fl_nonneg: "0 \<le> x \<Longrightarrow> 0 \<le> fl x"
proof (cases "x = 0")
  case True
  then show ?thesis by (simp add: fl_zero)
next
  case False
  assume "0 \<le> x"
  with False have x: "0 < x" by simp
  then have "0 \<le> x * subnormal_scale" using subnormal_scale_pos by simp
  then have "0 \<le> round_to_53 (x * subnormal_scale)" by (rule round_to_53_nonneg)
  then show ?thesis using x subnormal_scale_pos by (simp add: fl_pos)
qed

lemma fl_mono_pos:
  assumes "0 < x" and "x \<le> y"
  shows "fl x \<le> fl y"
proof -
  have "x * subnormal_scale \<le> y * subnormal_scale"
    using assms subnormal_scale_pos by simp
  then have "round_to_53 (x * subnormal_scale) \<le> round_to_53 (y * subnormal_scale)"
    by (rule round_to_53_mono)
  then show ?thesis using assms subnormal_scale_pos by (simp add: fl_pos divide_right_mono)
qed

lemma fl_mono:
  assumes "x \<le> y"
  shows "fl x \<le> fl y"
proof -
  consider "0 < x" | "x \<le> 0" "0 \<le> y" | "y < 0" by linarith
  then show ?thesis
  proof cases
    case 1
    then show ?thesis using assms by (rule fl_mono_pos)
  next
    case 2
    have "0 \<le> fl (- x)" using 2 by (intro fl_nonneg) simp
    then have "fl x \<le> 0" by (simp add: fl_minus)
    also have "0 \<le> fl y" using 2 by (intro fl_nonneg)
    finally show ?thesis .
  next
    case 3
    have "fl (- y) \<le> fl (- x)" using 3 assms by (intro fl_mono_pos) simp_all
    then show ?thesis by (simp add: fl_minus)
  qed
qed

lemma fl_eval:
  assumes "0 < x" and "k \<le> 1074"
    and lo: "2 ^ 52 \<le> x * 2 ^ k" and hi: "x * 2 ^ k < 2 ^ 53"
  shows "fl x = of_int (round_even (x * 2 ^ k)) / 2 ^ k"
proof -
  define s :: nat where "s = 1074 - k"
  have p: "subnormal_scale = 2 ^ k * 2 ^ s"
    unfolding s_def using assms(2) by (rule subnormal_scale_split)
  have q: "x * subnormal_scale / 2 ^ s = x * 2 ^ k" by (simp add: p)
  have "round_to_53 (x * subnormal_scale) = of_int (round_even (x * subnormal_scale / 2 ^ s)) * 2 ^ s"
    by (rule round_to_53_eval) (simp_all only: q lo hi)
  then have "round_to_53 (x * subnormal_scale) = of_int (round_even (x * 2 ^ k)) * 2 ^ s"
    by (simp only: q)
  then show ?thesis using assms(1) by (simp add: fl_pos p)
qed

lemma fl_exact:
  assumes "0 < x" and "k \<le> 1074"
    and lo: "2 ^ 52 \<le> x * 2 ^ k" and hi: "x * 2 ^ k < 2 ^ 53"
    and int: "x * 2 ^ k = of_int m"
  shows "fl x = x"
proof -
  have "fl x = of_int (round_even (x * 2 ^ k)) / 2 ^ k"
    using assms(1-4) by (rule fl_eval)
  also have "\<dots> = of_int m / 2 ^ k" by (simp add: int round_even_of_int)
  also have "\<dots> = x" by (simp flip: int)
  finally show ?thesis .
qed

lemma fl_eval_neg:
  assumes "x < 0" and "k \<le> 1074"
    and lo: "2 ^ 52 \<le> - x * 2 ^ k" and hi: "- x * 2 ^ k < 2 ^ 53"
  shows "fl x = - (of_int (round_even (- x * 2 ^ k)) / 2 ^ k)"
proof -
  have "fl (- x) = of_int (round_even (- x * 2 ^ k)) / 2 ^ k"
    using assms by (intro fl_eval) simp_all
  then show ?thesis by (simp add: fl_minus)
qed

lemma fl_half: "fl (1 / 2) = 1 / 2"
  by (subst fl_eval [of _ 53]) (simp_all add: round_even_def)

lemma fl_2: "fl 2 = 2"
  by (subst fl_eval [of _ 51]) (simp_all add: round_even_def)

lemma fl_3: "fl 3 = 3"
  by (subst fl_eval [of _ 51]) (simp_all add: round_even_def)

lemma fl_5: "fl 5 = 5"
  by (subst fl_eval [of _ 50]) (simp_all add: round_even_def)

lemma fl_50: "fl 50 = 50"
  by (subst fl_eval [of _ 47]) (simp_all add: round_even_def)

section \<open>Properties of the seeder\<close>

text \<open>
  C3. For every credit score, balance and transaction count, and every noise value \<open>n\<close>
  in \<open>[-0.1, 0.1]\<close> (the noise \<open>(rnd - 0.5) \<times> 0.2\<close> of the draw \<open>rnd = n / 0.2 + 0.5\<close>,
  which lies in \<open>[0, 1]\<close>), \<open>calculateRiskScore\<close> returns a value in \<open>[0, 1]\<close>: the blend
  \<open>0.6 \<times> (850 - creditScore) / 550 + 0.3 \<times> balance tier + 0.1 \<times> activity tier\<close> plus \<open>n\<close>,
  clamped to \<open>[0, 1]\<close>.
\<close>

theorem calculateRiskScore_range:
  assumes "- 0.1 \<le> n" and "n \<le> 0.1"
  shows "0 \<le> n / 0.2 + 0.5 \<and> n / 0.2 + 0.5 \<le> 1
       \<and> 0 \<le> calculateRiskScore credit balance txCount (n / 0.2 + 0.5)
       \<and> calculateRiskScore credit balance txCount (n / 0.2 + 0.5) \<le> 1
       \<and> calculateRiskScore credit balance txCount (n / 0.2 + 0.5) =
           max 0 (min 1 (0.6 * ((850 - credit) / 550)
                         + 0.3 * (if balance < 1000 then 0.3 else if balance < 5000 then 0.1 else 0)
                         + 0.1 * (if txCount < 5 then 0.2
                                  else if txCount > 100 then 0.1 else 0)
                         + n))
       \<and> calculateRiskScore credit balance txCount rnd =
           max 0 (min 1 (0.6 * ((850 - credit) / 550)
                         + 0.3 * (if balance < 1000 then 0.3 else if balance < 5000 then 0.1 else 0)
                         + 0.1 * (if txCount < 5 then 0.2
                                  else if txCount > 100 then 0.1 else 0)
                         + (rnd - 0.5) * 0.2))"
proof -
  have d: "0 \<le> n / 0.2 + 0.5 \<and> n / 0.2 + 0.5 \<le> 1"
    using assms by simp
  have g: "calculateRiskScore credit balance txCount r =
           max 0 (min 1 (0.6 * ((850 - credit) / 550)
                         + 0.3 * (if balance < 1000 then 0.3 else if balance < 5000 then 0.1 else 0)
                         + 0.1 * (if txCount < 5 then 0.2
                                  else if txCount > 100 then 0.1 else 0)
                         + (r - 0.5) * 0.2))" for r
    by (simp add: calculateRiskScore_def Let_def creditRisk_def balanceRisk_def
        activityRisk_def mult.commute)
  have e: "(n / 0.2 + 0.5 - 0.5) * 0.2 = n" by simp
  have f: "calculateRiskScore credit balance txCount (n / 0.2 + 0.5) =
           max 0 (min 1 (0.6 * ((850 - credit) / 550)
                         + 0.3 * (if balance < 1000 then 0.3 else if balance < 5000 then 0.1 else 0)
                         + 0.1 * (if txCount < 5 then 0.2
                                  else if txCount > 100 then 0.1 else 0)
                         + n))"
    by (simp only: g e)
  have r: "0 \<le> calculateRiskScore credit balance txCount (n / 0.2 + 0.5)
         \<and> calculateRiskScore credit balance txCount (n / 0.2 + 0.5) \<le> 1"
    by (simp add: calculateRiskScore_def Let_def)
  from d r f g [of rnd] show ?thesis by blast
qed

theorem calculateRiskScore_range_witness:
  "- 0.1 \<le> (0.05 :: real) \<and> (0.05 :: real) \<le> 0.1
   \<and> (0.05 :: real) / 0.2 + 0.5 = 0.75
   \<and> calculateRiskScore 700 500 50 0.75 = 279 / 1100 + 0.05"
proof -
  have h0: "- 0.1 \<le> (0.05 :: real)" and h1: "(0.05 :: real) \<le> 0.1" by simp_all
  have a: "(0.05 :: real) / 0.2 + 0.5 = 0.75" by simp
  have "calculateRiskScore 700 500 50 (0.05 / 0.2 + 0.5) =
           max 0 (min 1 (0.6 * ((850 - 700) / 550)
                         + 0.3 * (if (500 :: real) < 1000 then 0.3 else if (500 :: real) < 5000 then 0.1 else 0)
                         + 0.1 * (if (50 :: real) < 5 then 0.2
                                  else if (50 :: real) > 100 then 0.1 else 0)
                         + 0.05))"
    using calculateRiskScore_range [OF h0 h1, of 700 500 50] by blast
  then have "calculateRiskScore 700 500 50 0.75 = 279 / 1100 + 0.05"
    by (simp add: a)
  with h0 h1 a show ?thesis by blast
qed

text \<open>
  C4 (as stated). The claim gives the result as \<open>min(850, 580 + income / 1000)\<close> plus the
  noise, clamped to \<open>[300, 850]\<close>. The code floors the sum before it clamps: at income 0
  and the draw \<open>65 / 128\<close> (a noise of \<open>25 / 32\<close>, every operation exact) it returns 580,
  where the stated formula gives \<open>580 + 25 / 32\<close>.
\<close>

theorem generateCreditScore_unfloored_counterexample:
  "generateCreditScore 0 (65 / 128) = 580
   \<and> max 300 (min 850 (min 850 (580 + 0 / 1000) + (65 / 128 - 0.5) * 100)) = (580 + 25 / 32 :: real)"
proof -
  have q: "fl (0 / 1000) = 0"
    by (simp add: fl_zero)
  have b: "fl (580 + fl (0 / 1000)) = 580"
    unfolding q by (subst fl_eval [of _ 43]) (simp_all add: round_even_def)
  have d: "fl (65 / 128 - 0.5) = 1 / 2 ^ 7"
    by (subst fl_eval [of _ 59]) (simp_all add: round_even_def)
  have v: "fl (fl (65 / 128 - 0.5) * 100) = 25 / 2 ^ 5"
    unfolding d by (subst fl_eval [of _ 53]) (simp_all add: round_even_def)
  have s: "fl (min 850 (fl (580 + fl (0 / 1000))) + fl (fl (65 / 128 - 0.5) * 100)) = 18585 / 2 ^ 5"
    unfolding b v by (subst fl_eval [of _ 43]) (simp_all add: round_even_def)
  have "generateCreditScore 0 (65 / 128) = 580"
    unfolding generateCreditScore_def Let_def Math_floor_def s by simp
  then show ?thesis by simp
qed

text \<open>
  C4 (amended). For every income and every draw \<open>rnd\<close> in \<open>[0, 1]\<close>, the noise
  \<open>(rnd - 0.5) \<times> 100\<close> lies in \<open>[-50, 50]\<close>, and \<open>generateCreditScore\<close> returns a value in
  \<open>[300, 850]\<close>: the floor of \<open>min(850, 580 + income / 1000)\<close> plus that noise, clamped to
  \<open>[300, 850]\<close>, each operation rounded to the nearest double.
\<close>

theorem generateCreditScore_range:
  assumes "0 \<le> rnd" and "rnd \<le> 1"
  shows "- 50 \<le> fl (fl (rnd - 0.5) * 100) \<and> fl (fl (rnd - 0.5) * 100) \<le> 50
       \<and> 300 \<le> generateCreditScore income rnd
       \<and> generateCreditScore income rnd \<le> 850
       \<and> generateCreditScore income rnd =
           max 300 (min 850 (of_int \<lfloor>fl (min 850 (fl (580 + fl (income / 1000)))
                                           + fl (fl (rnd - 0.5) * 100))\<rfloor>))"
proof -
  have "fl (- 0.5) \<le> fl (rnd - 0.5)" using assms by (intro fl_mono) simp
  then have lo: "- 0.5 \<le> fl (rnd - 0.5)" by (simp add: fl_minus fl_half)
  have "fl (rnd - 0.5) \<le> fl 0.5" using assms by (intro fl_mono) simp
  then have hi: "fl (rnd - 0.5) \<le> 0.5" by (simp add: fl_half)
  have "fl (- 50) \<le> fl (fl (rnd - 0.5) * 100)" using lo by (intro fl_mono) simp
  then have nlo: "- 50 \<le> fl (fl (rnd - 0.5) * 100)" by (simp add: fl_minus fl_50)
  have "fl (fl (rnd - 0.5) * 100) \<le> fl 50" using hi by (intro fl_mono) simp
  then have nhi: "fl (fl (rnd - 0.5) * 100) \<le> 50" by (simp add: fl_50)
  have r: "300 \<le> generateCreditScore income rnd \<and> generateCreditScore income rnd \<le> 850"
    by (simp add: generateCreditScore_def Let_def)
  have f: "generateCreditScore income rnd =
           max 300 (min 850 (of_int \<lfloor>fl (min 850 (fl (580 + fl (income / 1000)))
                                           + fl (fl (rnd - 0.5) * 100))\<rfloor>))"
    by (simp add: generateCreditScore_def Let_def Math_floor_def)
  from nlo nhi r f show ?thesis by blast
qed

text \<open>
  The witness is a draw where the rounding of the sum decides the result: the exact sum
  is below 590, its nearest double is 590.
\<close>

theorem generateCreditScore_range_witness:
  "(0::real) \<le> 450359962737049 / 2 ^ 52 \<and> (450359962737049 / 2 ^ 52 :: real) \<le> 1
   \<and> fl (fl (450359962737049 / 2 ^ 52 - 0.5) * 100) = - (2814749767106561 / 2 ^ 46)
   \<and> \<lfloor>min 850 (580 + 50000 / 1000) + (450359962737049 / 2 ^ 52 - 0.5) * 100 :: real\<rfloor> = 589
   \<and> generateCreditScore 50000 (450359962737049 / 2 ^ 52) = 590"
proof -
  have h0: "(0::real) \<le> 450359962737049 / 2 ^ 52"
    and h1: "(450359962737049 / 2 ^ 52 :: real) \<le> 1" by simp_all
  have q: "fl (50000 / 1000) = 50"
    by (subst fl_eval [of _ 47]) (simp_all add: round_even_def)
  have b: "fl (580 + fl (50000 / 1000)) = 630"
    unfolding q by (subst fl_eval [of _ 43]) (simp_all add: round_even_def)
  have d: "fl (450359962737049 / 2 ^ 52 - 0.5) = - (1801439850948199 / 2 ^ 52)"
    by (subst fl_eval_neg [of _ 54]) (simp_all add: round_even_def)
  have v: "fl (fl (450359962737049 / 2 ^ 52 - 0.5) * 100) = - (2814749767106561 / 2 ^ 46)"
    unfolding d by (subst fl_eval_neg [of _ 47]) (simp_all add: round_even_def)
  have s: "fl (min 850 (fl (580 + fl (50000 / 1000))) + fl (fl (450359962737049 / 2 ^ 52 - 0.5) * 100)) = 590"
    unfolding b v by (subst fl_eval [of _ 43]) (simp_all add: round_even_def)
  have x: "\<lfloor>min 850 (580 + 50000 / 1000) + (450359962737049 / 2 ^ 52 - 0.5) * 100 :: real\<rfloor> = 589"
    by simp
  have "generateCreditScore 50000 (450359962737049 / 2 ^ 52) =
           max 300 (min 850 (of_int \<lfloor>fl (min 850 (fl (580 + fl (50000 / 1000)))
                                           + fl (fl (450359962737049 / 2 ^ 52 - 0.5) * 100))\<rfloor>))"
    using generateCreditScore_range [OF h0 h1, of 50000] by blast
  then have "generateCreditScore 50000 (450359962737049 / 2 ^ 52) = 590"
    unfolding s by simp
  with h0 h1 v x show ?thesis by blast
qed

text \<open>
  C5. For non-negative balance, income and account age, and every draw \<open>rnd\<close> in
  \<open>[0, 1]\<close>, the factor \<open>2 + rnd \<times> 3\<close> lies in \<open>[2, 5]\<close>, and \<open>calculateCLV\<close> returns a
  non-negative value: the floor of
  \<open>(balance \<times> 0.001 + income \<times> 0.0001) \<times> 12 \<times> min(5, accountAge / 12) \<times> factor\<close>, each
  operation rounded to the nearest double.
\<close>

theorem calculateCLV_nonneg:
  assumes "0 \<le> balance" and "0 \<le> income" and "0 \<le> age"
    and "0 \<le> rnd" and "rnd \<le> 1"
  shows "2 \<le> fl (2 + fl (rnd * 3)) \<and> fl (2 + fl (rnd * 3)) \<le> 5
       \<and> 0 \<le> calculateCLV balance income age rnd
       \<and> calculateCLV balance income age rnd =
           of_int \<lfloor>fl (fl (fl (fl (fl (balance * fl 0.001) + fl (income * fl 0.0001)) * 12)
                            * min 5 (fl (age / 12)))
                        * fl (2 + fl (rnd * 3)))\<rfloor>"
proof -
  have "fl 0 \<le> fl (rnd * 3)" using assms by (intro fl_mono) simp
  then have t0: "0 \<le> fl (rnd * 3)" by (simp add: fl_zero)
  have "fl (rnd * 3) \<le> fl 3" using assms by (intro fl_mono) simp
  then have t3: "fl (rnd * 3) \<le> 3" by (simp add: fl_3)
  have "fl 2 \<le> fl (2 + fl (rnd * 3))" using t0 by (intro fl_mono) simp
  then have flo: "2 \<le> fl (2 + fl (rnd * 3))" by (simp add: fl_2)
  have "fl (2 + fl (rnd * 3)) \<le> fl 5" using t3 by (intro fl_mono) simp
  then have fhi: "fl (2 + fl (rnd * 3)) \<le> 5" by (simp add: fl_5)
  have c1: "0 \<le> fl 0.001" by (rule fl_nonneg) simp
  have c2: "0 \<le> fl 0.0001" by (rule fl_nonneg) simp
  have "0 \<le> balance * fl 0.001" using assms(1) c1 by (rule mult_nonneg_nonneg)
  then have "0 \<le> fl (balance * fl 0.001)" by (rule fl_nonneg)
  moreover have "0 \<le> income * fl 0.0001" using assms(2) c2 by (rule mult_nonneg_nonneg)
  then have "0 \<le> fl (income * fl 0.0001)" by (rule fl_nonneg)
  ultimately have "0 \<le> fl (balance * fl 0.001) + fl (income * fl 0.0001)"
    by (rule add_nonneg_nonneg)
  then have m: "0 \<le> fl (fl (balance * fl 0.001) + fl (income * fl 0.0001))"
    by (rule fl_nonneg)
  have "0 \<le> fl (age / 12)" using assms by (intro fl_nonneg) simp
  then have r: "0 \<le> min 5 (fl (age / 12))" by simp
  have "0 \<le> fl (fl (balance * fl 0.001) + fl (income * fl 0.0001)) * 12"
    using m by simp
  then have "0 \<le> fl (fl (fl (balance * fl 0.001) + fl (income * fl 0.0001)) * 12)"
    by (rule fl_nonneg)
  then have "0 \<le> fl (fl (fl (balance * fl 0.001) + fl (income * fl 0.0001)) * 12)
                   * min 5 (fl (age / 12))"
    using r by (rule mult_nonneg_nonneg)
  then have "0 \<le> fl (fl (fl (fl (balance * fl 0.001) + fl (income * fl 0.0001)) * 12)
                      * min 5 (fl (age / 12)))"
    by (rule fl_nonneg)
  moreover have "0 \<le> fl (2 + fl (rnd * 3))" using flo by simp
  ultimately have "0 \<le> fl (fl (fl (fl (balance * fl 0.001) + fl (income * fl 0.0001)) * 12)
                            * min 5 (fl (age / 12)))
                        * fl (2 + fl (rnd * 3))"
    by (rule mult_nonneg_nonneg)
  then have p: "0 \<le> fl (fl (fl (fl (fl (balance * fl 0.001) + fl (income * fl 0.0001)) * 12)
                            * min 5 (fl (age / 12)))
                        * fl (2 + fl (rnd * 3)))"
    by (rule fl_nonneg)
  have f: "calculateCLV balance income age rnd =
           of_int \<lfloor>fl (fl (fl (fl (fl (balance * fl 0.001) + fl (income * fl 0.0001)) * 12)
                            * min 5 (fl (age / 12)))
                        * fl (2 + fl (rnd * 3)))\<rfloor>"
    by (simp add: calculateCLV_def Let_def Math_floor_def)
  have "0 \<le> calculateCLV balance income age rnd"
    unfolding f using p by simp
  with flo fhi f show ?thesis by blast
qed

text \<open>
  The witness is an input where the rounding decides the result: the exact product is
  861, the product of the doubles is below 861. The account age of 72 months is capped.
\<close>

theorem calculateCLV_nonneg_witness:
  "(0::real) \<le> 100 \<and> (0::real) \<le> 40000 \<and> (0::real) \<le> 72
   \<and> (0::real) \<le> 1 / 2 \<and> (1 / 2 :: real) \<le> 1
   \<and> fl (2 + fl (1 / 2 * 3)) = 7 / 2
   \<and> \<lfloor>(100 * 0.001 + 40000 * 0.0001) * 12 * min 5 (72 / 12) * (2 + 1 / 2 * 3) :: real\<rfloor> = 861
   \<and> calculateCLV 100 40000 72 (1 / 2) = 860"
proof -
  have h: "(0::real) \<le> 100" "(0::real) \<le> 40000" "(0::real) \<le> 72"
    "(0::real) \<le> 1 / 2" "(1 / 2 :: real) \<le> 1" by simp_all
  have c1: "fl 0.001 = 1152921504606847 / 2 ^ 60"
    by (subst fl_eval [of _ 62]) (simp_all add: round_even_def)
  have p1: "fl (100 * fl 0.001) = 3602879701896397 / 2 ^ 55"
    unfolding c1 by (subst fl_eval [of _ 56]) (simp_all add: round_even_def)
  have c2: "fl 0.0001 = 7378697629483821 / 2 ^ 66"
    by (subst fl_eval [of _ 66]) (simp_all add: round_even_def)
  have p2: "fl (40000 * fl 0.0001) = 4"
    unfolding c2 by (subst fl_eval [of _ 50]) (simp_all add: round_even_def)
  have m: "fl (fl (100 * fl 0.001) + fl (40000 * fl 0.0001)) = 2308094809027379 / 2 ^ 49"
    unfolding p1 p2 by (subst fl_eval [of _ 50]) (simp_all add: round_even_def)
  have r: "fl (72 / 12) = 6"
    by (subst fl_eval [of _ 50]) (simp_all add: round_even_def)
  have t1: "fl (fl (fl (100 * fl 0.001) + fl (40000 * fl 0.0001)) * 12) = 6924284427082137 / 2 ^ 47"
    unfolding m by (subst fl_eval [of _ 47]) (simp_all add: round_even_def)
  have t2: "fl (fl (fl (fl (100 * fl 0.001) + fl (40000 * fl 0.0001)) * 12) * min 5 (fl (72 / 12))) = 8655355533852671 / 2 ^ 45"
    unfolding t1 r by (subst fl_eval [of _ 45]) (simp_all add: round_even_def)
  have f1: "fl (1 / 2 * 3) = 3 / 2 ^ 1"
    by (subst fl_eval [of _ 52]) (simp_all add: round_even_def)
  have f2: "fl (2 + fl (1 / 2 * 3)) = 7 / 2 ^ 1"
    unfolding f1 by (subst fl_eval [of _ 51]) (simp_all add: round_even_def)
  have t3: "fl (fl (fl (fl (fl (100 * fl 0.001) + fl (40000 * fl 0.0001)) * 12) * min 5 (fl (72 / 12))) * fl (2 + fl (1 / 2 * 3))) = 7573436092121087 / 2 ^ 43"
    unfolding t2 f2 by (subst fl_eval [of _ 43]) (simp_all add: round_even_def)
  have f2': "fl (2 + fl (1 / 2 * 3)) = 7 / 2" unfolding f2 by simp
  have x: "\<lfloor>(100 * 0.001 + 40000 * 0.0001) * 12 * min 5 (72 / 12) * (2 + 1 / 2 * 3) :: real\<rfloor> = 861"
    by simp
  have "calculateCLV 100 40000 72 (1 / 2) =
           of_int \<lfloor>fl (fl (fl (fl (fl (100 * fl 0.001) + fl (40000 * fl 0.0001)) * 12)
                            * min 5 (fl (72 / 12)))
                        * fl (2 + fl (1 / 2 * 3)))\<rfloor>"
    using calculateCLV_nonneg [OF h] by blast
  then have "calculateCLV 100 40000 72 (1 / 2) = 860"
    unfolding t3 by simp
  with h f2' x show ?thesis by blast
qed

text \<open>
  A second input where the rounding decides the result: the exact product is 492.
\<close>

lemma calculateCLV_rounded_example:
  "\<lfloor>(100 * 0.001 + 40000 * 0.0001) * 12 * min 5 (60 / 12) * (2 + 0 * 3) :: real\<rfloor> = 492
   \<and> calculateCLV 100 40000 60 0 = 491"
proof -
  have c1: "fl 0.001 = 1152921504606847 / 2 ^ 60"
    by (subst fl_eval [of _ 62]) (simp_all add: round_even_def)
  have p1: "fl (100 * fl 0.001) = 3602879701896397 / 2 ^ 55"
    unfolding c1 by (subst fl_eval [of _ 56]) (simp_all add: round_even_def)
  have c2: "fl 0.0001 = 7378697629483821 / 2 ^ 66"
    by (subst fl_eval [of _ 66]) (simp_all add: round_even_def)
  have p2: "fl (40000 * fl 0.0001) = 4"
    unfolding c2 by (subst fl_eval [of _ 50]) (simp_all add: round_even_def)
  have m: "fl (fl (100 * fl 0.001) + fl (40000 * fl 0.0001)) = 2308094809027379 / 2 ^ 49"
    unfolding p1 p2 by (subst fl_eval [of _ 50]) (simp_all add: round_even_def)
  have r: "fl (60 / 12) = 5"
    by (subst fl_eval [of _ 50]) (simp_all add: round_even_def)
  have t1: "fl (fl (fl (100 * fl 0.001) + fl (40000 * fl 0.0001)) * 12) = 6924284427082137 / 2 ^ 47"
    unfolding m by (subst fl_eval [of _ 47]) (simp_all add: round_even_def)
  have t2: "fl (fl (fl (fl (100 * fl 0.001) + fl (40000 * fl 0.0001)) * 12) * min 5 (fl (60 / 12))) = 8655355533852671 / 2 ^ 45"
    unfolding t1 r by (subst fl_eval [of _ 45]) (simp_all add: round_even_def)
  have f1: "fl (0 * 3) = 0"
    by (simp add: fl_zero)
  have f2: "fl (2 + fl (0 * 3)) = 2"
    unfolding f1 by (subst fl_eval [of _ 51]) (simp_all add: round_even_def)
  have t3: "fl (fl (fl (fl (fl (100 * fl 0.001) + fl (40000 * fl 0.0001)) * 12) * min 5 (fl (60 / 12))) * fl (2 + fl (0 * 3))) = 8655355533852671 / 2 ^ 44"
    unfolding t2 f2 by (subst fl_eval [of _ 44]) (simp_all add: round_even_def)
  have "calculateCLV 100 40000 60 0 = 491"
    unfolding calculateCLV_def Let_def Math_floor_def t3 by simp
  then show ?thesis by simp
qed

subsection \<open>chunkArray\<close>

lemma chunk_loop_correct:
  assumes "0 < chunkSize"
  shows "\<exists>cs. chunk_loop array chunkSize i chunks = Some (chunks @ cs)
            \<and> concat cs = drop i array
            \<and> list_all (\<lambda>c. length c \<le> chunkSize) cs"
proof (induction "length array - i" arbitrary: i chunks rule: less_induct)
  case less
  show ?case
  proof (cases "i < length array")
    case False
    then have "chunk_loop array chunkSize i chunks = Some (chunks @ [])"
      by (subst chunk_loop.simps) simp
    moreover have "concat [] = drop i array" using False by simp
    ultimately show ?thesis by (intro exI [of _ "[]"]) simp
  next
    case True
    let ?c = "slice array i (i + chunkSize)"
    have "length array - (i + chunkSize) < length array - i"
      using True assms by arith
    from less [OF this, of "chunks @ [?c]"] obtain cs where
      run: "chunk_loop array chunkSize (i + chunkSize) (chunks @ [?c]) = Some ((chunks @ [?c]) @ cs)"
      and cat: "concat cs = drop (i + chunkSize) array"
      and len: "list_all (\<lambda>c. length c \<le> chunkSize) cs"
      by blast
    have "chunk_loop array chunkSize i chunks = Some (chunks @ (?c # cs))"
      using True run by (subst chunk_loop.simps) simp
    moreover have "concat (?c # cs) = drop i array"
    proof -
      have "take chunkSize (drop i array) @ drop chunkSize (drop i array) = drop i array"
        by (rule append_take_drop_id)
      then show ?thesis
        using cat by (simp add: slice_def add.commute)
    qed
    moreover have "list_all (\<lambda>c. length c \<le> chunkSize) (?c # cs)"
      using len by (simp add: slice_def)
    ultimately show ?thesis by blast
  qed
qed

text \<open>
  C10. For every array and every chunk size greater than zero, \<open>chunkArray\<close> returns, and
  the chunks it returns, concatenated in order, are the original array; every chunk has
  at most \<open>chunkSize\<close> elements.
\<close>

theorem chunkArray_concat:
  assumes "0 < chunkSize"
  shows "\<exists>chunks. chunkArray array chunkSize = Some chunks
            \<and> concat chunks = array
            \<and> list_all (\<lambda>c. length c \<le> chunkSize) chunks"
  using chunk_loop_correct [OF assms, of array 0 "[]"]
  by (simp add: chunkArray_def)

theorem chunkArray_concat_witness:
  "(0::nat) < 2 \<and> chunkArray [1, 2, 3, 4, 5 :: nat] 2 = Some [[1, 2], [3, 4], [5]]"
proof -
  have h: "(0::nat) < 2" by simp
  have run: "chunkArray [1, 2, 3, 4, 5 :: nat] 2 = Some [[1, 2], [3, 4], [5]]"
    by (simp add: chunkArray_def chunk_loop.simps slice_def)
  from chunkArray_concat [OF h, of "[1, 2, 3, 4, 5 :: nat]"] run h show ?thesis
    by simp
qed

section \<open>Properties of the fallback segmentation\<close>

subsection \<open>The sort\<close>

text \<open>
  With the comparator of the source, \<open>Array_sort\<close> is the stable sort of the library on
  the negated balance; sortedness, permutation and stability follow.
\<close>

lemma insert_by_insort_key:
  "insert_by (\<lambda>a b. f b - f a) x ys = insort_key (\<lambda>c. - f c) x ys"
  by (induction ys) auto

lemma Array_sort_sort_key:
  "Array_sort (\<lambda>a b. f b - f a) xs = sort_key (\<lambda>c. - f c) xs"
  by (induction xs) (simp_all add: Array_sort_def sort_key_def insert_by_insort_key)

lemma sortedByBalance_sort_key:
  "sortedByBalance customers = sort_key (\<lambda>c. - accountBalance c) customers"
  by (simp add: sortedByBalance_def Array_sort_sort_key)

lemma mset_sortedByBalance: "mset (sortedByBalance customers) = mset customers"
  by (simp add: sortedByBalance_sort_key)

lemma sorted_sortedByBalance:
  "sorted_wrt (\<lambda>a b. accountBalance b \<le> accountBalance a) (sortedByBalance customers)"
proof -
  have "sorted (map (\<lambda>c. - accountBalance c) (sortedByBalance customers))"
    by (simp add: sortedByBalance_sort_key)
  then show ?thesis
    by (simp add: sorted_map)
qed

lemma stable_sortedByBalance:
  "filter (\<lambda>c. accountBalance c = v) (sortedByBalance customers)
     = filter (\<lambda>c. accountBalance c = v) customers"
proof -
  have "filter (\<lambda>c. - accountBalance c = - v) (sort_key (\<lambda>c. - accountBalance c) customers)
     = filter (\<lambda>c. - accountBalance c = - v) customers"
    by (rule sort_key_stable)
  then show ?thesis by (simp add: sortedByBalance_sort_key)
qed

subsection \<open>The size of the top fifth\<close>

lemma highValueCount_div: "highValueCount customers = (length customers + 4) div 5"
proof -
  have "\<lceil>real (length customers) * 0.2\<rceil> = \<lceil>real (length customers) / 5\<rceil>" by simp
  also have "\<dots> = - \<lfloor> - (real (length customers) / 5)\<rfloor>" by (simp add: ceiling_def)
  also have "- (real (length customers) / 5) = real_of_int (- int (length customers)) / real_of_int 5" by simp
  also have "\<lfloor>\<dots>\<rfloor> = (- int (length customers)) div 5" by (rule floor_divide_of_int_eq)
  finally have "\<lceil>real (length customers) * 0.2\<rceil> = - ((- int (length customers)) div 5)" .
  then show ?thesis unfolding highValueCount_def by (simp; linarith)
qed

lemma highValueCount_bounds:
  "customers \<noteq> [] \<Longrightarrow> 1 \<le> highValueCount customers \<and> highValueCount customers \<le> length customers"
  by (cases customers) (simp_all add: highValueCount_div)

lemma length_sortedByBalance: "length (sortedByBalance customers) = length customers"
  using mset_sortedByBalance [of customers] by (metis size_mset)

text \<open>
  C1. For every non-empty list of \<open>n\<close> customers, the high-value segment (the first
  segment of the fallback's result) has exactly \<open>ceil(0.2 \<times> n)\<close> members: the ids of the
  first \<open>ceil(0.2 \<times> n)\<close> customers of \<open>sortedByBalance\<close>, which is a permutation of the
  input, sorted by descending balance, with customers of equal balance in their
  original order. So every member's balance is at least every non-member's.
\<close>

theorem high_value_segment_top_fifth:
  assumes "customers \<noteq> []"
  shows "(\<exists>rest. fallbackSegmentation t1 t2 t3 customers = high_value_segment t1 customers # rest)
       \<and> segmentName (high_value_segment t1 customers) = ''High Value Customers''
       \<and> length (customers_seg (high_value_segment t1 customers))
           = nat \<lceil>0.2 * real (length customers)\<rceil>
       \<and> customers_seg (high_value_segment t1 customers)
           = map id_cust (take (nat \<lceil>0.2 * real (length customers)\<rceil>) (sortedByBalance customers))
       \<and> mset (sortedByBalance customers) = mset customers
       \<and> sorted_wrt (\<lambda>a b. accountBalance b \<le> accountBalance a) (sortedByBalance customers)
       \<and> (\<forall>v. filter (\<lambda>c. accountBalance c = v) (sortedByBalance customers)
               = filter (\<lambda>c. accountBalance c = v) customers)
       \<and> list_all (\<lambda>a. list_all (\<lambda>b. accountBalance b \<le> accountBalance a)
                      (drop (nat \<lceil>0.2 * real (length customers)\<rceil>) (sortedByBalance customers)))
            (take (nat \<lceil>0.2 * real (length customers)\<rceil>) (sortedByBalance customers))"
proof -
  let ?k = "nat \<lceil>0.2 * real (length customers)\<rceil>"
  let ?s = "sortedByBalance customers"
  have k: "highValueCount customers = ?k"
    by (simp add: highValueCount_def mult.commute)
  have hv: "highValueCustomers customers = take ?k ?s"
    by (simp add: highValueCustomers_def slice_def k)
  have first: "\<exists>rest. fallbackSegmentation t1 t2 t3 customers = high_value_segment t1 customers # rest"
    by (simp add: fallbackSegmentation_def Let_def)
  have name: "segmentName (high_value_segment t1 customers) = ''High Value Customers''"
    by (simp add: high_value_segment_def)
  have members: "customers_seg (high_value_segment t1 customers) = map id_cust (take ?k ?s)"
    by (simp add: high_value_segment_def hv)
  have "?k \<le> length ?s"
    using highValueCount_bounds [OF assms] by (simp add: k length_sortedByBalance)
  then have len: "length (customers_seg (high_value_segment t1 customers)) = ?k"
    by (simp add: members)
  have srt: "sorted_wrt (\<lambda>a b. accountBalance b \<le> accountBalance a) ?s"
    by (rule sorted_sortedByBalance)
  then have "sorted_wrt (\<lambda>a b. accountBalance b \<le> accountBalance a) (take ?k ?s @ drop ?k ?s)"
    by simp
  then have top: "list_all (\<lambda>a. list_all (\<lambda>b. accountBalance b \<le> accountBalance a) (drop ?k ?s))
                    (take ?k ?s)"
    unfolding sorted_wrt_append by (simp add: list_all_iff)
  from first name len members mset_sortedByBalance [of customers] srt
    stable_sortedByBalance [of _ customers] top
  show ?thesis by blast
qed

lemma example_sorted:
  "map id_cust (sortedByBalance example_customers) = [''a'', ''c'', ''d'', ''b'', ''f'', ''e'']"
  by (simp add: sortedByBalance_def Array_sort_def example_customers_def example_customer_def)

theorem high_value_segment_top_fifth_witness:
  "example_customers \<noteq> []
   \<and> length example_customers = 6
   \<and> map accountBalance example_customers = [500, 300, 500, 500, 1, 2]
   \<and> customers_seg (high_value_segment ''0'' example_customers) = [''a'', ''c'']"
proof -
  have h: "example_customers \<noteq> []" by (simp add: example_customers_def)
  have l: "length example_customers = 6" by (simp add: example_customers_def)
  have b: "map accountBalance example_customers = [500, 300, 500, 500, 1, 2]"
    by (simp add: example_customers_def example_customer_def)
  have "customers_seg (high_value_segment ''0'' example_customers)
          = map id_cust (take (nat \<lceil>0.2 * real (length example_customers)\<rceil>)
              (sortedByBalance example_customers))"
    using high_value_segment_top_fifth [OF h, of "''0''"] by blast
  also have "\<dots> = take 2 (map id_cust (sortedByBalance example_customers))"
    by (simp add: l take_map)
  also have "\<dots> = [''a'', ''c'']"
    by (simp add: example_sorted)
  finally show ?thesis using h l b by simp
qed

subsection \<open>The segments of the result\<close>

lemma segments_named_fallback:
  "segments_named name (fallbackSegmentation t1 t2 t3 customers) =
     (if name = ''High Value Customers'' then [high_value_segment t1 customers] else [])
     @ (if name = ''Young Professionals'' \<and> youngProfessionals customers \<noteq> []
        then [young_prof_segment t2 customers] else [])
     @ (if name = ''High Risk Customers'' \<and> highRiskCustomers customers \<noteq> []
        then [high_risk_segment t3 customers] else [])"
  by (simp add: segments_named_def fallbackSegmentation_def Let_def
      high_value_segment_def young_prof_segment_def high_risk_segment_def)

text \<open>
  C2 (as stated). The claim admits an income of exactly 40,000; the filter of the code
  reads \<^verbatim>\<open>c.annualIncome > 40000\<close>. Customer \<open>a\<close> of the example (income 40,000,
  account age 12) meets the claim's condition and is not in the segment.
\<close>

theorem young_professionals_inclusive_counterexample:
  "map id_cust (filter young_professional_spec example_customers) = [''a'', ''b'', ''c'', ''e'']
   \<and> map customers_seg (segments_named ''Young Professionals''
          (fallbackSegmentation ''1'' ''2'' ''3'' example_customers)) = [[''b'', ''c'', ''e'']]"
  by (simp add: segments_named_fallback young_prof_segment_def youngProfessionals_def
      young_professional_spec_def example_customers_def example_customer_def)

text \<open>
  C2 (amended). For every input list, the young-professionals segment holds exactly the
  input customers, in input order, whose account age is below 36 months and whose income
  satisfies \<open>40,000 < income < 100,000\<close>; there is no such segment when no customer
  qualifies.
\<close>

theorem young_professionals_segment:
  "map customers_seg (segments_named ''Young Professionals''
       (fallbackSegmentation t1 t2 t3 customers)) =
     (if filter (\<lambda>c. accountAge c < 36 \<and> 40000 < annualIncome c \<and> annualIncome c < 100000)
           customers = []
      then []
      else [map id_cust
              (filter (\<lambda>c. accountAge c < 36 \<and> 40000 < annualIncome c \<and> annualIncome c < 100000)
                 customers)])"
  by (simp add: segments_named_fallback young_prof_segment_def youngProfessionals_def)

theorem young_professionals_segment_witness:
  "map customers_seg (segments_named ''Young Professionals''
       (fallbackSegmentation ''1'' ''2'' ''3'' example_customers)) = [[''b'', ''c'', ''e'']]"
  using young_professionals_segment [of "''1''" "''2''" "''3''" example_customers]
  by (simp add: example_customers_def example_customer_def)

text \<open>
  C7. For every input list, the result has no young-professionals segment when no
  customer qualifies for it, no high-risk segment when no customer qualifies for it, and,
  when the input is non-empty, exactly one high-value segment, with at least one member.
\<close>

theorem fallback_segments_present:
  "(youngProfessionals customers = [] \<longrightarrow>
      segments_named ''Young Professionals'' (fallbackSegmentation t1 t2 t3 customers) = [])
   \<and> (highRiskCustomers customers = [] \<longrightarrow>
      segments_named ''High Risk Customers'' (fallbackSegmentation t1 t2 t3 customers) = [])
   \<and> (customers \<noteq> [] \<longrightarrow>
      segments_named ''High Value Customers'' (fallbackSegmentation t1 t2 t3 customers)
        = [high_value_segment t1 customers]
      \<and> customers_seg (high_value_segment t1 customers) \<noteq> [])"
proof -
  have "customers_seg (high_value_segment t1 customers) \<noteq> []" if ne: "customers \<noteq> []"
  proof -
    have "1 \<le> highValueCount customers" "highValueCount customers \<le> length (sortedByBalance customers)"
      using highValueCount_bounds [OF ne] by (simp_all add: length_sortedByBalance)
    then have "length (highValueCustomers customers) \<noteq> 0"
      by (simp add: highValueCustomers_def slice_def)
    then show ?thesis by (simp add: high_value_segment_def)
  qed
  then show ?thesis by (simp add: segments_named_fallback)
qed

theorem fallback_segments_present_witness:
  "youngProfessionals [example_customer ''a'' 500 40000 0.2 12] = []
   \<and> highRiskCustomers [example_customer ''a'' 500 40000 0.2 12] = []
   \<and> [example_customer ''a'' 500 40000 0.2 12] \<noteq> []
   \<and> segments_named ''Young Professionals''
        (fallbackSegmentation ''1'' ''2'' ''3'' [example_customer ''a'' 500 40000 0.2 12]) = []
   \<and> segments_named ''High Risk Customers''
        (fallbackSegmentation ''1'' ''2'' ''3'' [example_customer ''a'' 500 40000 0.2 12]) = []
   \<and> segments_named ''High Value Customers''
        (fallbackSegmentation ''1'' ''2'' ''3'' [example_customer ''a'' 500 40000 0.2 12])
        = [high_value_segment ''1'' [example_customer ''a'' 500 40000 0.2 12]]
   \<and> customers_seg (high_value_segment ''1'' [example_customer ''a'' 500 40000 0.2 12]) \<noteq> []"
proof -
  have y: "youngProfessionals [example_customer ''a'' 500 40000 0.2 12] = []"
    by (simp add: youngProfessionals_def example_customer_def)
  have r: "highRiskCustomers [example_customer ''a'' 500 40000 0.2 12] = []"
    by (simp add: highRiskCustomers_def example_customer_def)
  have n: "[example_customer ''a'' 500 40000 0.2 12] \<noteq> []" by simp
  from fallback_segments_present [of "[example_customer ''a'' 500 40000 0.2 12]" "''1''" "''2''" "''3''"]
    y r n show ?thesis by blast
qed

section \<open>Properties of the operations backed by the hosted AI\<close>

text \<open>
  C6. Applied to an empty customer list, \<open>performCustomerSegmentation\<close> returns the
  empty list of segments, and its list of requests to the hosted AI is empty: it returns
  before any call, whatever the AI would answer.
\<close>

theorem performCustomerSegmentation_empty:
  "performCustomerSegmentation generateObject fresh t1 t2 t3 [] = ([], Inr [])"
  by (simp add: performCustomerSegmentation_def)

text \<open>
  C8. For every input, when the hosted AI call of an operation throws (a call is made,
  and it throws), the operation returns its fallback and the exception does not leave
  it: \<open>performCustomerSegmentation\<close> returns the fallback segmentation of the same
  customers, \<open>generateCustomerInsights\<close> and \<open>generateProductRecommendations\<close> return
  the empty list, and \<open>assessCustomerRisk\<close> returns the customer's own risk score with
  the level read off the thresholds 0.7 and 0.4.
\<close>

theorem ai_failure_fallbacks:
  "(ai_call_threw gS (fst (performCustomerSegmentation gS fresh t1 t2 t3 customers)) \<longrightarrow>
      snd (performCustomerSegmentation gS fresh t1 t2 t3 customers)
        = Inr (fallbackSegmentation t1 t2 t3 customers))
   \<and> (ai_call_threw gI (fst (generateCustomerInsights gI customerId customerData)) \<longrightarrow>
      snd (generateCustomerInsights gI customerId customerData) = Inr [])
   \<and> (ai_call_threw gP (fst (generateProductRecommendations gP customerData)) \<longrightarrow>
      snd (generateProductRecommendations gP customerData) = Inr [])
   \<and> (ai_call_threw gR (fst (assessCustomerRisk gR customerData transactionHistory)) \<longrightarrow>
      snd (assessCustomerRisk gR customerData transactionHistory)
        = Inr \<lparr>r_riskScore = riskScore customerData,
               r_riskLevel = (if riskScore customerData > 0.7 then ''high''
                              else if riskScore customerData > 0.4 then ''medium'' else ''low''),
               r_factors = [''Unable to assess risk factors''],
               r_recommendations = [''Manual review recommended'']\<rparr>)"
proof -
  have s: "ai_call_threw gS (fst (performCustomerSegmentation gS fresh t1 t2 t3 customers)) \<longrightarrow>
      snd (performCustomerSegmentation gS fresh t1 t2 t3 customers)
        = Inr (fallbackSegmentation t1 t2 t3 customers)"
    by (auto simp: ai_call_threw_def performCustomerSegmentation_def Let_def split: sum.splits)
  have i: "ai_call_threw gI (fst (generateCustomerInsights gI customerId customerData)) \<longrightarrow>
      snd (generateCustomerInsights gI customerId customerData) = Inr []"
    by (auto simp: ai_call_threw_def generateCustomerInsights_def Let_def split: sum.splits)
  have p: "ai_call_threw gP (fst (generateProductRecommendations gP customerData)) \<longrightarrow>
      snd (generateProductRecommendations gP customerData) = Inr []"
    by (auto simp: ai_call_threw_def generateProductRecommendations_def Let_def split: sum.splits)
  have r: "ai_call_threw gR (fst (assessCustomerRisk gR customerData transactionHistory)) \<longrightarrow>
      snd (assessCustomerRisk gR customerData transactionHistory)
        = Inr \<lparr>r_riskScore = riskScore customerData,
               r_riskLevel = (if riskScore customerData > 0.7 then ''high''
                              else if riskScore customerData > 0.4 then ''medium'' else ''low''),
               r_factors = [''Unable to assess risk factors''],
               r_recommendations = [''Manual review recommended'']\<rparr>"
    by (auto simp: ai_call_threw_def assessCustomerRisk_def Let_def split: sum.splits)
  from s i p r show ?thesis by blast
qed

lemma ai_down_threw: "calls \<noteq> [] \<Longrightarrow> ai_call_threw ai_down calls"
  by (simp add: ai_call_threw_def ai_down_def list_all_iff)

theorem ai_failure_fallbacks_witness:
  "ai_call_threw ai_down (fst (performCustomerSegmentation ai_down (\<lambda>i. ''x'') ''1'' ''2'' ''3'' example_customers))
   \<and> ai_call_threw (ai_down :: insights_prompt \<Rightarrow> string + nat list option)
        (fst (generateCustomerInsights ai_down ''b'' (example_customer ''b'' 300 60000 0.8 12)))
   \<and> ai_call_threw (ai_down :: product_prompt \<Rightarrow> string + nat list option)
        (fst (generateProductRecommendations ai_down (example_customer ''b'' 300 60000 0.8 12)))
   \<and> ai_call_threw ai_down (fst (assessCustomerRisk ai_down (example_customer ''b'' 300 60000 0.8 12) [()]))
   \<and> map segmentName (projr (snd (performCustomerSegmentation ai_down (\<lambda>i. ''x'') ''1'' ''2'' ''3'' example_customers)))
       = [''High Value Customers'', ''Young Professionals'', ''High Risk Customers'']
   \<and> snd (generateCustomerInsights ai_down ''b'' (example_customer ''b'' 300 60000 0.8 12))
       = (Inr [] :: string + nat list)
   \<and> snd (generateProductRecommendations ai_down (example_customer ''b'' 300 60000 0.8 12))
       = (Inr [] :: string + nat list)
   \<and> snd (assessCustomerRisk ai_down (example_customer ''b'' 300 60000 0.8 12) [()])
       = Inr \<lparr>r_riskScore = 0.8, r_riskLevel = ''high'',
              r_factors = [''Unable to assess risk factors''],
              r_recommendations = [''Manual review recommended'']\<rparr>"
proof -
  let ?b = "example_customer ''b'' 300 60000 0.8 12"
  have hs: "ai_call_threw ai_down
      (fst (performCustomerSegmentation ai_down (\<lambda>i. ''x'') ''1'' ''2'' ''3'' example_customers))"
    by (rule ai_down_threw)
      (simp add: performCustomerSegmentation_def ai_down_def example_customers_def Let_def)
  have hi: "ai_call_threw (ai_down :: insights_prompt \<Rightarrow> string + nat list option)
      (fst (generateCustomerInsights ai_down ''b'' ?b))"
    by (rule ai_down_threw) (simp add: generateCustomerInsights_def ai_down_def Let_def)
  have hp: "ai_call_threw (ai_down :: product_prompt \<Rightarrow> string + nat list option)
      (fst (generateProductRecommendations ai_down ?b))"
    by (rule ai_down_threw) (simp add: generateProductRecommendations_def ai_down_def Let_def)
  have hr: "ai_call_threw ai_down (fst (assessCustomerRisk ai_down ?b [()]))"
    by (rule ai_down_threw) (simp add: assessCustomerRisk_def ai_down_def Let_def)
  have names: "map segmentName (fallbackSegmentation ''1'' ''2'' ''3'' example_customers)
       = [''High Value Customers'', ''Young Professionals'', ''High Risk Customers'']"
    by (simp add: fallbackSegmentation_def Let_def high_value_segment_def
        young_prof_segment_def high_risk_segment_def youngProfessionals_def
        highRiskCustomers_def example_customers_def example_customer_def)
  note T = ai_failure_fallbacks [of ai_down "\<lambda>i. ''x''" "''1''" "''2''" "''3''" example_customers
      "ai_down :: insights_prompt \<Rightarrow> string + nat list option" "''b''" ?b
      "ai_down :: product_prompt \<Rightarrow> string + nat list option" ai_down "[()]"]
  from T hs have "snd (performCustomerSegmentation ai_down (\<lambda>i. ''x'') ''1'' ''2'' ''3''
        example_customers) = Inr (fallbackSegmentation ''1'' ''2'' ''3'' example_customers)"
    by blast
  then have cs: "map segmentName (projr (snd (performCustomerSegmentation ai_down (\<lambda>i. ''x'')
        ''1'' ''2'' ''3'' example_customers)))
       = [''High Value Customers'', ''Young Professionals'', ''High Risk Customers'']"
    by (simp add: names)
  from T hi have ci: "snd (generateCustomerInsights ai_down ''b'' ?b) = (Inr [] :: string + nat list)"
    by blast
  from T hp have cp: "snd (generateProductRecommendations ai_down ?b) = (Inr [] :: string + nat list)"
    by blast
  from T hr have "snd (assessCustomerRisk ai_down ?b [()])
       = Inr \<lparr>r_riskScore = riskScore ?b,
              r_riskLevel = (if riskScore ?b > 0.7 then ''high''
                             else if riskScore ?b > 0.4 then ''medium'' else ''low''),
              r_factors = [''Unable to assess risk factors''],
              r_recommendations = [''Manual review recommended'']\<rparr>"
    by blast
  then have cr: "snd (assessCustomerRisk ai_down ?b [()])
       = Inr \<lparr>r_riskScore = 0.8, r_riskLevel = ''high'',
              r_factors = [''Unable to assess risk factors''],
              r_recommendations = [''Manual review recommended'']\<rparr>"
    by (simp add: example_customer_def)
  from hs hi hp hr cs ci cp cr show ?thesis by blast
qed

section \<open>Properties of the batch risk analysis\<close>

lemma assessed_append: "assessed (xs @ ys) = assessed xs @ assessed ys"
  by (induction xs rule: assessed.induct) simp_all

lemma started_append: "started (xs @ ys) = started xs @ started ys"
  by (induction xs rule: started.induct) simp_all

lemma assessed_map_GenerateObject: "assessed (map GenerateObject calls) = []"
  by (induction calls) simp_all

lemma started_map_GenerateObject: "started (map GenerateObject calls) = []"
  by (induction calls) simp_all

lemma assessed_analyse_customer:
  "assessed (analyse_customer w user customer)
     = (if isl (transactions_list w) then [] else [c_id customer])"
  by (auto simp: analyse_customer_def Let_def assessed_append assessed_map_GenerateObject
      customerData_of_def split: sum.splits option.splits prod.splits)

lemma started_analyse_customer: "started (analyse_customer w user customer) = [c_id customer]"
  by (auto simp: analyse_customer_def Let_def started_append started_map_GenerateObject
      split: sum.splits option.splits prod.splits)

lemma started_analysis_loop: "started (analysis_loop world user i cs) = map c_id cs"
  by (induction cs arbitrary: i) (simp_all add: started_append started_analyse_customer)

lemma assessed_analysis_loop_subseq: "subseq (assessed (analysis_loop world user i cs)) (map c_id cs)"
  by (induction cs arbitrary: i)
    (auto simp: assessed_append assessed_analyse_customer intro: list_emb.list_emb_Cons)

lemma assessed_analysis_loop_all:
  "(\<And>j. j < length cs \<Longrightarrow> \<not> isl (transactions_list (world (i + j))))
     \<Longrightarrow> assessed (analysis_loop world user i cs) = map c_id cs"
proof (induction cs arbitrary: i)
  case Nil
  then show ?case by simp
next
  case (Cons c cs)
  have here: "\<not> isl (transactions_list (world i))"
    using Cons.prems [of 0] by simp
  have "\<not> isl (transactions_list (world (Suc i + j)))" if "j < length cs" for j
    using Cons.prems [of "Suc j"] that by simp
  then have "assessed (analysis_loop world user (Suc i) cs) = map c_id cs"
    by (rule Cons.IH)
  with here show ?case
    by (simp add: assessed_append assessed_analyse_customer)
qed

text \<open>
  C9. For every customer list and every behaviour of the outside world, one run of
  \<open>runRiskAnalysis\<close> assesses at most 20 customers, and the customers it assesses are, in
  order, among the first 20 entries of the filtered high-risk list. When
  \<^verbatim>\<open>blink.auth.me()\<close> returns, the run starts an iteration for exactly those entries; when
  the transactions of each are listed without an exception, it assesses exactly those
  entries. The bound is the constant 20.
\<close>

theorem runRiskAnalysis_cap:
  "length (assessed (runRiskAnalysis auth_me world customers)) \<le> 20
   \<and> subseq (assessed (runRiskAnalysis auth_me world customers))
        (map c_id (take 20 (filter (\<lambda>c. c_riskScore c > 0.6 \<or> c_accountBalance c < 1000) customers)))
   \<and> (\<not> isl auth_me \<longrightarrow>
        started (runRiskAnalysis auth_me world customers)
          = map c_id (take 20 (filter (\<lambda>c. c_riskScore c > 0.6 \<or> c_accountBalance c < 1000) customers)))
   \<and> (\<not> isl auth_me \<and> (\<forall>i<20. \<not> isl (transactions_list (world i))) \<longrightarrow>
        assessed (runRiskAnalysis auth_me world customers)
          = map c_id (take 20 (filter (\<lambda>c. c_riskScore c > 0.6 \<or> c_accountBalance c < 1000) customers)))"
proof -
  let ?hr = "take 20 (filter (\<lambda>c. c_riskScore c > 0.6 \<or> c_accountBalance c < 1000) customers)"
  have sl: "slice (page_highRiskCustomers customers) 0 20 = ?hr"
    by (simp add: slice_def page_highRiskCustomers_def)
  have sub: "subseq (assessed (runRiskAnalysis auth_me world customers)) (map c_id ?hr)"
  proof (cases auth_me)
    case (Inl e)
    then show ?thesis by (simp add: runRiskAnalysis_def)
  next
    case (Inr user)
    then show ?thesis
      using assessed_analysis_loop_subseq [of world user 0 ?hr]
      by (simp add: runRiskAnalysis_def sl assessed_append)
  qed
  have "length (assessed (runRiskAnalysis auth_me world customers)) \<le> length (map c_id ?hr)"
    using sub by (rule list_emb_length)
  then have cap: "length (assessed (runRiskAnalysis auth_me world customers)) \<le> 20"
    by simp
  have st: "started (runRiskAnalysis auth_me world customers) = map c_id ?hr" if "\<not> isl auth_me"
    using that
    by (cases auth_me) (simp_all add: runRiskAnalysis_def sl started_append started_analysis_loop)
  have al: "assessed (runRiskAnalysis auth_me world customers) = map c_id ?hr"
    if a: "\<not> isl auth_me" and t: "\<forall>i<20. \<not> isl (transactions_list (world i))"
  proof -
    have "assessed (analysis_loop world user 0 ?hr) = map c_id ?hr" for user
      by (rule assessed_analysis_loop_all) (use t in simp)
    with a show ?thesis
      by (cases auth_me) (simp_all add: runRiskAnalysis_def sl assessed_append)
  qed
  from cap sub st al show ?thesis by blast
qed

theorem runRiskAnalysis_cap_witness:
  "length (page_highRiskCustomers (replicate 25 risky_customer)) = 25
   \<and> assessed (runRiskAnalysis (Inr (Some ''u'')) calm_world (replicate 25 risky_customer))
       = replicate 20 ''r''"
proof -
  have q: "page_highRiskCustomers (replicate 25 risky_customer) = replicate 25 risky_customer"
    by (simp add: page_highRiskCustomers_def risky_customer_def)
  have a: "\<not> isl (Inr (Some ''u'') :: string + string option)" by simp
  have t: "\<forall>i<20. \<not> isl (transactions_list (calm_world i))"
    by (simp add: calm_world_def)
  have "assessed (runRiskAnalysis (Inr (Some ''u'')) calm_world (replicate 25 risky_customer))
      = map c_id (take 20 (filter (\<lambda>c. c_riskScore c > 0.6 \<or> c_accountBalance c < 1000)
          (replicate 25 risky_customer)))"
    using runRiskAnalysis_cap [of "Inr (Some ''u'')" calm_world "replicate 25 risky_customer"] a t
    by blast
  also have "\<dots> = replicate 20 ''r''"
    by (simp add: risky_customer_def)
  finally show ?thesis using q by simp
qed

end
